theory Spec2Isabelle
  imports Complex_Main "HOL-Library.Sublist"
begin

section \<open>Embedding of the notebook 01\_simulated\_astrometric\_orbit\_fit\<close>

text \<open>
  The repository holds one notebook. Its cells build a single-star astrometric model,
  copy it, and run a signal-detection loop on the copy. All numerical work is done by
  imported packages (kepmodel, spleaf, pystrometry, numpy, astropy), whose code is not
  part of the notebook. The embedding therefore models the cells themselves and takes
  every method of the imported model class as a parameter.

  Conventions.
  \<^item> Python floats are modelled as \<open>real\<close>; the properties proved below concern
    control flow, indices and the data handed to the library, not rounding.
  \<^item> Python objects live in a heap, a list of object states indexed by address. A
    variable holding an object holds its address. The state of an object is all the
    data it owns; \<open>copy.deepcopy\<close> duplicates all of it. A method receives the address
    of its receiver and the heap and returns a result or an exception together with the
    new heap (an exception leaves the heap as the method left it).
  \<^item> Every call of a library method is recorded in a trace, in program order.
  \<^item> Statements that only draw figures or print through matplotlib and Python itself
    (the \<open>pl.*\<close> calls, \<open>print\<close>, \<open>display\<close>) and plain attribute reads
    (\<open>model.t\<close>, \<open>model.cov.A\<close>) are left out; every method call on a model object,
    also \<open>residuals\<close> and \<open>show_param\<close>, is part of the embedding.
\<close>

subsection \<open>Exceptions, heap, library interface\<close>

datatype exn = ValueError | IndexError | LibraryError

type_synonym ('m, 'r) meth = "nat \<Rightarrow> 'm list \<Rightarrow> (exn + 'r) \<times> 'm list"

text \<open>
  The methods of \<open>kepmodel.astro.AstroModel\<close> that the notebook calls. The constructor
  has no receiver; it returns the address of the new object. \<open>fit_param_iadd\<close> stands
  for the statement \<open>single_star_model.fit_param += [...]\<close>.
\<close>

record 'm kepmodel =
  AstrometricModel :: "real list \<Rightarrow> real list \<Rightarrow> real list \<Rightarrow> real list \<Rightarrow> real list \<Rightarrow> real
                        \<Rightarrow> 'm list \<Rightarrow> (exn + nat) \<times> 'm list"
  add_lin :: "real list \<Rightarrow> string \<Rightarrow> ('m, unit) meth"
  fit_param_iadd :: "string list \<Rightarrow> ('m, unit) meth"
  fit :: "('m, unit) meth"
  show_param :: "('m, unit) meth"
  residuals :: "('m, real list) meth"
  periodogram :: "real \<Rightarrow> real \<Rightarrow> nat \<Rightarrow> ('m, real list \<times> real list) meth"
  fap :: "real \<Rightarrow> real \<Rightarrow> ('m, real) meth"
  add_keplerian_from_period :: "real \<Rightarrow> ('m, unit) meth"
  set_keplerian_param :: "string \<Rightarrow> string list \<Rightarrow> ('m, unit) meth"

datatype call =
    NewAstrometricModel "real list" "real list" "real list" "real list" "real list" real
  | AddLin "real list" string
  | FitParamIadd "string list"
  | Fit
  | ShowParam
  | Residuals
  | Periodogram real real nat
  | Fap real real
  | AddKeplerianFromPeriod real
  | SetKeplerianParam string "string list"

record 'm state =
  heap :: "'m list"
  trace :: "call list"

type_synonym ('m, 'a) prog = "'m state \<Rightarrow> (exn + 'a) \<times> 'm state"

definition ret :: "'a \<Rightarrow> ('m, 'a) prog" where
  "ret x s = (Inr x, s)"

definition lift :: "exn + 'a \<Rightarrow> ('m, 'a) prog" where
  "lift r s = (r, s)"

definition pbind :: "('m, 'a) prog \<Rightarrow> ('a \<Rightarrow> ('m, 'b) prog) \<Rightarrow> ('m, 'b) prog" where
  "pbind p f s = (case p s of (Inl e, s') \<Rightarrow> (Inl e, s') | (Inr x, s') \<Rightarrow> f x s')"

definition invoke :: "call \<Rightarrow> ('m, 'r) meth \<Rightarrow> nat \<Rightarrow> ('m, 'r) prog" where
  "invoke c f a s = (case f a (heap s) of (r, h') \<Rightarrow> (r, \<lparr>heap = h', trace = trace s @ [c]\<rparr>))"

definition construct :: "call \<Rightarrow> ('m list \<Rightarrow> (exn + nat) \<times> 'm list) \<Rightarrow> ('m, nat) prog" where
  "construct c f s = (case f (heap s) of (r, h') \<Rightarrow> (r, \<lparr>heap = h', trace = trace s @ [c]\<rparr>))"

text \<open>\<open>copy.deepcopy\<close>: a new object, at a fresh address, whose state is a copy.\<close>

definition deepcopy :: "nat \<Rightarrow> ('m, nat) prog" where
  "deepcopy a s = (Inr (length (heap s)), s\<lparr>heap := heap s @ [heap s ! a]\<rparr>)"

subsection \<open>numpy helpers\<close>

text \<open>\<open>np.argmax\<close> on a one-dimensional array: the first index of the maximum;
  \<open>ValueError\<close> on an empty array.\<close>

fun argmax_from :: "real \<Rightarrow> nat \<Rightarrow> nat \<Rightarrow> real list \<Rightarrow> nat" where
  "argmax_from best kbest k [] = kbest"
| "argmax_from best kbest k (x # xs) =
     (if best < x then argmax_from x k (Suc k) xs else argmax_from best kbest (Suc k) xs)"

definition np_argmax :: "real list \<Rightarrow> exn + nat" where
  "np_argmax xs = (case xs of [] \<Rightarrow> Inl ValueError | x # xs' \<Rightarrow> Inr (argmax_from x 0 1 xs'))"

text \<open>\<open>ndarray.max\<close>: \<open>ValueError\<close> on an empty array.\<close>

definition np_max :: "real list \<Rightarrow> exn + real" where
  "np_max xs = (case xs of [] \<Rightarrow> Inl ValueError | x # xs' \<Rightarrow> Inr (fold max xs' x))"

text \<open>Indexing with a non-negative index: \<open>IndexError\<close> out of range.\<close>

definition getitem :: "'a list \<Rightarrow> nat \<Rightarrow> exn + 'a" where
  "getitem xs k = (if k < length xs then Inr (xs ! k) else Inl IndexError)"

text \<open>The f-string \<open>f'{kpla}'\<close>: the decimal digits of a non-negative integer.\<close>

fun str_nat :: "nat \<Rightarrow> string" where
  "str_nat n = (if n < 10 then [''0123456789'' ! n]
                else str_nat (n div 10) @ [''0123456789'' ! (n mod 10)])"

declare str_nat.simps [simp del]

subsection \<open>The single-star cell\<close>

text \<open>One row of \<open>simulated_astrometry.csv\<close>, with the columns the cells read.\<close>

record observation =
  relative_time_year :: real
  centroidPosAl_mas :: real
  centroidPosAlError_mas :: real
  cpsi_obs :: real
  spsi_obs :: real
  parallaxFactorAlongScan :: real

text \<open>
  \<open>year_to_day\<close> is the factor \<open>u.year.to(u.day)\<close> of astropy. The products of two
  columns are numpy's elementwise products; the columns of one frame have one length.
  \<open>err=spleaf.term.Error(...)\<close> and \<open>jit=spleaf.term.Jitter(0.05)\<close> are passed on
  as their arguments.
\<close>

definition single_star_cell :: "'m kepmodel \<Rightarrow> real \<Rightarrow> observation list \<Rightarrow> ('m, nat) prog" where
  "single_star_cell lib year_to_day simulated_astrometry =
    (let relative_time_day = map (\<lambda>x. x * year_to_day) (map relative_time_year simulated_astrometry);
         y = map centroidPosAl_mas simulated_astrometry;
         cpsi = map cpsi_obs simulated_astrometry;
         spsi = map spsi_obs simulated_astrometry;
         err = map centroidPosAlError_mas simulated_astrometry;
         ra = map spsi_obs simulated_astrometry;
         dec = map cpsi_obs simulated_astrometry;
         parallax = map parallaxFactorAlongScan simulated_astrometry;
         mura = map2 (*) (map relative_time_year simulated_astrometry) (map spsi_obs simulated_astrometry);
         mudec = map2 (*) (map relative_time_year simulated_astrometry) (map cpsi_obs simulated_astrometry)
     in
     pbind (construct (NewAstrometricModel relative_time_day y cpsi spsi err (5 / 100))
              (AstrometricModel lib relative_time_day y cpsi spsi err (5 / 100))) (\<lambda>single_star_model.
     pbind (invoke (AddLin ra ''ra'') (add_lin lib ra ''ra'') single_star_model) (\<lambda>_.
     pbind (invoke (AddLin dec ''dec'') (add_lin lib dec ''dec'') single_star_model) (\<lambda>_.
     pbind (invoke (AddLin parallax ''parallax'') (add_lin lib parallax ''parallax'') single_star_model) (\<lambda>_.
     pbind (invoke (AddLin mura ''mura'') (add_lin lib mura ''mura'') single_star_model) (\<lambda>_.
     pbind (invoke (AddLin mudec ''mudec'') (add_lin lib mudec ''mudec'') single_star_model) (\<lambda>_.
     pbind (invoke (FitParamIadd [''cov.jit.sig'']) (fit_param_iadd lib [''cov.jit.sig'']) single_star_model) (\<lambda>_.
     pbind (invoke Fit (fit lib) single_star_model) (\<lambda>_.
     pbind (invoke ShowParam (show_param lib) single_star_model) (\<lambda>_.
     ret single_star_model))))))))))"

subsection \<open>The detection cell\<close>

text \<open>Periodogram settings.\<close>

definition Pmin :: real where "Pmin = 5"
definition Pmax :: real where "Pmax = 50000"
definition nfreq :: nat where "nfreq = 10000"
definition nu0 :: real where "nu0 = 2 * pi / Pmax"
definition dnu :: real where "dnu = (2 * pi / Pmin - nu0) / real (nfreq - 1)"
definition fap_threshold :: real where "fap_threshold = 1 / 1000"

definition param :: "string list" where
  "param = [''P'', ''Tp'', ''as'', ''e'', ''w'', ''i'', ''bigw'']"

datatype flow = Break | Continue

text \<open>
  The body of \<open>for kpla in range(1)\<close>. The residuals are read for the first
  figure. \<open>P[kmax]\<close> is first evaluated for the periodogram figure, before the
  significance test, so its \<open>IndexError\<close> comes there.
\<close>

definition loop_body :: "'m kepmodel \<Rightarrow> nat \<Rightarrow> nat \<Rightarrow> ('m, flow) prog" where
  "loop_body lib model kpla =
     pbind (invoke Residuals (residuals lib) model) (\<lambda>res.
     pbind (invoke (Periodogram nu0 dnu nfreq) (periodogram lib nu0 dnu nfreq) model) (\<lambda>(nu, power).
     let P = map (\<lambda>x. 2 * pi / x) nu in
     pbind (lift (np_argmax power)) (\<lambda>kmax.
     pbind (lift (np_max nu)) (\<lambda>nu_max.
     pbind (invoke (Fap (power ! kmax) nu_max) (fap lib (power ! kmax) nu_max) model) (\<lambda>faplvl.
     pbind (lift (getitem P kmax)) (\<lambda>P_kmax.
     if faplvl > fap_threshold then ret Break
     else
       pbind (invoke (AddKeplerianFromPeriod P_kmax) (add_keplerian_from_period lib P_kmax) model) (\<lambda>_.
       pbind (invoke Fit (fit lib) model) (\<lambda>_.
       pbind (invoke ShowParam (show_param lib) model) (\<lambda>_.
       pbind (invoke (SetKeplerianParam (str_nat kpla) param)
                (set_keplerian_param lib (str_nat kpla) param) model) (\<lambda>_.
       pbind (invoke ShowParam (show_param lib) model) (\<lambda>_.
       ret Continue)))))))))))"

text \<open>A \<open>for\<close> loop over a list of indices, with \<open>break\<close>.\<close>

fun for_loop :: "(nat \<Rightarrow> ('m, flow) prog) \<Rightarrow> nat list \<Rightarrow> ('m, unit) prog" where
  "for_loop body [] s = (Inr (), s)"
| "for_loop body (k # ks) s =
     (case body k s of
        (Inl e, s') \<Rightarrow> (Inl e, s')
      | (Inr Break, s') \<Rightarrow> (Inr (), s')
      | (Inr Continue, s') \<Rightarrow> for_loop body ks s')"

text \<open>The loop with \<open>n\<close> iterations allowed, \<open>for kpla in range(n)\<close>, on a given model.\<close>

definition detection_loop :: "'m kepmodel \<Rightarrow> nat \<Rightarrow> nat \<Rightarrow> ('m, unit) prog" where
  "detection_loop lib n model = for_loop (loop_body lib model) [0..<n]"

text \<open>The cell: \<open>model = copy.deepcopy(single_star_model)\<close>, then the loop over \<open>range(1)\<close>.\<close>

definition detection_cell :: "'m kepmodel \<Rightarrow> nat \<Rightarrow> ('m, nat) prog" where
  "detection_cell lib single_star_model =
     pbind (deepcopy single_star_model) (\<lambda>model.
     pbind (detection_loop lib 1 model) (\<lambda>_.
     ret model))"

subsection \<open>The trial frequencies\<close>

text \<open>
  Modelled from the spec: the trial frequencies of \<open>periodogram(nu_min, delta_nu, n)\<close>,
  "n frequencies uniformly spaced in angular frequency from nu\_min by step delta\_nu". The
  method belongs to kepmodel; the notebook only calls it.
\<close>

definition frequency_grid :: "real \<Rightarrow> real \<Rightarrow> nat \<Rightarrow> real list" where
  "frequency_grid nu_min delta_nu n = map (\<lambda>k. nu_min + real k * delta_nu) [0..<n]"

text \<open>
  Modelled from the spec: what \<open>periodogram(nu_min, delta_nu, n)\<close> returns when it
  returns, "(frequencies, power)" for those \<open>n\<close> frequencies, one power each.
\<close>

definition periodogram_on_grid :: "'m kepmodel \<Rightarrow> bool" where
  "periodogram_on_grid lib \<longleftrightarrow>
     (\<forall>x y n a h nu pwr h'. periodogram lib x y n a h = (Inr (nu, pwr), h') \<longrightarrow>
        nu = frequency_grid x y n \<and> length pwr = n)"

subsection \<open>The model behind the fitted parameters\<close>

text \<open>
  Modelled from the spec: the linear part of the model, the sum of the coefficients times
  their basis vectors at an observation (the \<open>X beta\<close> of the spec's linear solve; in the
  notebook's description of the single-star model, offsets and proper motions times the
  sine and cosine of the scan angle plus parallax times parallax factor). The fit that
  finds the coefficients is inside kepmodel.
\<close>

definition linear_prediction :: "(real \<times> real list) list \<Rightarrow> nat \<Rightarrow> real" where
  "linear_prediction cs i = sum_list (map (\<lambda>(c, v). c * v ! i) cs)"

text \<open>
  Modelled from the spec: the mean anomaly of Kepler's equation,
  \<open>E - e sin E = (2 pi / P) (t - T0)\<close>, at an epoch \<open>t\<close> of the model's time axis.
\<close>

definition mean_anomaly :: "real \<Rightarrow> real \<Rightarrow> real \<Rightarrow> real" where
  "mean_anomaly P T0 t = 2 * pi / P * (t - T0)"

subsection \<open>Vocabulary of the properties\<close>

text \<open>Counting, in a trace, the Keplerian components added and the iterations started
  (the first call of every iteration is its \<open>residuals\<close> call).\<close>

fun is_add_keplerian :: "call \<Rightarrow> bool" where
  "is_add_keplerian (AddKeplerianFromPeriod p) = True"
| "is_add_keplerian c = False"

fun is_residuals :: "call \<Rightarrow> bool" where
  "is_residuals Residuals = True"
| "is_residuals c = False"

definition keplerians_added :: "call list \<Rightarrow> nat" where
  "keplerians_added tr = length (filter is_add_keplerian tr)"

definition iterations_started :: "call list \<Rightarrow> nat" where
  "iterations_started tr = length (filter is_residuals tr)"

text \<open>
  A method that changes no object but its receiver (it may allocate new ones), and a
  library whose methods called in the detection loop are all of this kind.
\<close>

definition receiver_only :: "('m, 'r) meth \<Rightarrow> bool" where
  "receiver_only f \<longleftrightarrow>
     (\<forall>a h. a < length h \<longrightarrow>
        length h \<le> length (snd (f a h)) \<and> (\<forall>b<length h. b \<noteq> a \<longrightarrow> snd (f a h) ! b = h ! b))"

definition loop_methods_receiver_only :: "'m kepmodel \<Rightarrow> bool" where
  "loop_methods_receiver_only lib \<longleftrightarrow>
     (\<forall>x y n. receiver_only (periodogram lib x y n))
     \<and> (\<forall>p x. receiver_only (fap lib p x))
     \<and> (\<forall>p. receiver_only (add_keplerian_from_period lib p))
     \<and> receiver_only (fit lib)
     \<and> (\<forall>l ps. receiver_only (set_keplerian_param lib l ps))
     \<and> receiver_only (residuals lib)
     \<and> receiver_only (show_param lib)"

text \<open>A program that, run on a receiver \<open>a\<close>, changes no other existing object.\<close>

definition frames :: "nat \<Rightarrow> ('m, 'a) prog \<Rightarrow> bool" where
  "frames a p \<longleftrightarrow>
     (\<forall>s. a < length (heap s) \<longrightarrow>
        length (heap s) \<le> length (heap (snd (p s)))
        \<and> (\<forall>b<length (heap s). b \<noteq> a \<longrightarrow> heap (snd (p s)) ! b = heap s ! b))"

text \<open>
  A program whose result \<open>r\<close> and whose new calls \<open>new\<close>, appended to the trace,
  satisfy \<open>S r new\<close> from every state.
\<close>

definition shaped :: "(exn + 'a \<Rightarrow> call list \<Rightarrow> bool) \<Rightarrow> ('m, 'a) prog \<Rightarrow> bool" where
  "shaped S p \<longleftrightarrow> (\<forall>s. \<exists>new. trace (snd (p s)) = trace s @ new \<and> S (fst (p s)) new)"

subsection \<open>Two library instances\<close>

text \<open>
  A concrete library for evaluating the cells: an object is the list of the periods of
  its Keplerian components, the periodogram has three trial frequencies with the
  maximal power attained twice, and \<open>fap\<close> returns the given value \<open>f\<close>.
\<close>

definition stub :: "real \<Rightarrow> (real list) kepmodel" where
  "stub f =
     \<lparr> AstrometricModel = (\<lambda>t y c s e j h. (Inr (length h), h @ [[]])),
       add_lin = (\<lambda>v n a h. (Inr (), h)),
       fit_param_iadd = (\<lambda>ps a h. (Inr (), h)),
       fit = (\<lambda>a h. (Inr (), h)),
       show_param = (\<lambda>a h. (Inr (), h)),
       residuals = (\<lambda>a h. (Inr [], h)),
       periodogram = (\<lambda>nu0 dnu n a h. (Inr ([1, 2, 4], [1 / 10, 9 / 10, 9 / 10]), h)),
       fap = (\<lambda>p nu_max a h. (Inr f, h)),
       add_keplerian_from_period = (\<lambda>P a h. (Inr (), h[a := h ! a @ [P]])),
       set_keplerian_param = (\<lambda>l ps a h. (Inr (), h)) \<rparr>"

text \<open>
  A second library, whose objects keep what they are given: the time axis, the
  regressors in the order of registration, and the periods of the Keplerian components.
  Its periodogram returns the trial frequencies of the spec and a power with one peak,
  at index 99.
\<close>

record toy_model =
  toy_t :: "real list"
  toy_lin :: "(string \<times> real list) list"
  toy_kep :: "real list"

definition recording :: "real \<Rightarrow> toy_model kepmodel" where
  "recording f =
     \<lparr> AstrometricModel = (\<lambda>t y c s e j h. (Inr (length h), h @ [\<lparr>toy_t = t, toy_lin = [], toy_kep = []\<rparr>])),
       add_lin = (\<lambda>v n a h. (Inr (), h[a := (h ! a)\<lparr>toy_lin := toy_lin (h ! a) @ [(n, v)]\<rparr>])),
       fit_param_iadd = (\<lambda>ps a h. (Inr (), h)),
       fit = (\<lambda>a h. (Inr (), h)),
       show_param = (\<lambda>a h. (Inr (), h)),
       residuals = (\<lambda>a h. (Inr (map (\<lambda>x. 0) (toy_t (h ! a))), h)),
       periodogram = (\<lambda>x y n a h.
          (Inr (frequency_grid x y n, map (\<lambda>k. if k = 99 then 1 else 0) [0..<n]), h)),
       fap = (\<lambda>p nu_max a h. (Inr f, h)),
       add_keplerian_from_period = (\<lambda>P a h. (Inr (), h[a := (h ! a)\<lparr>toy_kep := toy_kep (h ! a) @ [P]\<rparr>])),
       set_keplerian_param = (\<lambda>l ps a h. (Inr (), h)) \<rparr>"

text \<open>An object of the second library, with two epochs and nothing registered.\<close>

definition toy0 :: toy_model where
  "toy0 = \<lparr>toy_t = [0, 100], toy_lin = [], toy_kep = []\<rparr>"

text \<open>Two observations, for evaluating the single-star cell.\<close>

definition two_observations :: "observation list" where
  "two_observations =
     [\<lparr>relative_time_year = - 1, centroidPosAl_mas = 3, centroidPosAlError_mas = 1 / 10,
       cpsi_obs = 3 / 5, spsi_obs = 4 / 5, parallaxFactorAlongScan = 1 / 2\<rparr>,
      \<lparr>relative_time_year = 2, centroidPosAl_mas = - 1, centroidPosAlError_mas = 1 / 10,
       cpsi_obs = 0, spsi_obs = 1, parallaxFactorAlongScan = - 1 / 4\<rparr>]"

section \<open>Properties\<close>

subsection \<open>The numpy helpers\<close>

lemma argmax_from_spec:
  "argmax_from b kb k xs = r \<Longrightarrow>
     (r = kb \<and> (\<forall>x\<in>set xs. x \<le> b)) \<or>
     (k \<le> r \<and> r - k < length xs \<and> b < xs ! (r - k) \<and> (\<forall>x\<in>set xs. x \<le> xs ! (r - k))
        \<and> (\<forall>j<r - k. xs ! j < xs ! (r - k)))"
proof (induction xs arbitrary: b kb k)
  case Nil
  then show ?case by simp
next
  case (Cons x xs)
  show ?case
  proof (cases "b < x")
    case True
    with Cons.prems have r: "argmax_from x k (Suc k) xs = r" by simp
    from Cons.IH[OF r] show ?thesis
    proof
      assume a: "r = k \<and> (\<forall>y\<in>set xs. y \<le> x)"
      then show ?thesis using True by auto
    next
      assume a: "Suc k \<le> r \<and> r - Suc k < length xs \<and> x < xs ! (r - Suc k) \<and>
        (\<forall>y\<in>set xs. y \<le> xs ! (r - Suc k)) \<and> (\<forall>j<r - Suc k. xs ! j < xs ! (r - Suc k))"
      then have rk: "r - k = Suc (r - Suc k)" by arith
      have lt: "\<And>j. j < r - k \<Longrightarrow> (x # xs) ! j < xs ! (r - Suc k)"
      proof -
        fix j assume "j < r - k"
        then show "(x # xs) ! j < xs ! (r - Suc k)"
          using a rk by (cases j) auto
      qed
      show ?thesis using a True rk lt by (auto simp: less_imp_le)
    qed
  next
    case False
    with Cons.prems have r: "argmax_from b kb (Suc k) xs = r" by simp
    from Cons.IH[OF r] show ?thesis
    proof
      assume a: "r = kb \<and> (\<forall>y\<in>set xs. y \<le> b)"
      then show ?thesis using False by auto
    next
      assume a: "Suc k \<le> r \<and> r - Suc k < length xs \<and> b < xs ! (r - Suc k) \<and>
        (\<forall>y\<in>set xs. y \<le> xs ! (r - Suc k)) \<and> (\<forall>j<r - Suc k. xs ! j < xs ! (r - Suc k))"
      then have rk: "r - k = Suc (r - Suc k)" by arith
      have lt: "\<And>j. j < r - k \<Longrightarrow> (x # xs) ! j < xs ! (r - Suc k)"
      proof -
        fix j assume "j < r - k"
        then show "(x # xs) ! j < xs ! (r - Suc k)"
          using a rk False by (cases j) auto
      qed
      show ?thesis using a False rk lt by auto
    qed
  qed
qed

lemma np_argmax_first_max:
  assumes "np_argmax xs = Inr k"
  shows "k < length xs \<and> xs ! k = Max (set xs) \<and> (\<forall>j<k. xs ! j < xs ! k)"
proof -
  from assms obtain x xs' where xs: "xs = x # xs'" and k: "argmax_from x 0 1 xs' = k"
    by (auto simp: np_argmax_def split: list.splits)
  from argmax_from_spec[OF k] show ?thesis
  proof
    assume a: "k = 0 \<and> (\<forall>y\<in>set xs'. y \<le> x)"
    then have "Max (set xs) = x" unfolding xs by (intro Max_eqI) auto
    with a show ?thesis by (simp add: xs)
  next
    assume a: "1 \<le> k \<and> k - 1 < length xs' \<and> x < xs' ! (k - 1) \<and>
        (\<forall>y\<in>set xs'. y \<le> xs' ! (k - 1)) \<and> (\<forall>j<k - 1. xs' ! j < xs' ! (k - 1))"
    then obtain k' where k': "k = Suc k'" by (cases k) auto
    have mx: "Max (set xs) = xs' ! k'" unfolding xs using a k' by (intro Max_eqI) (auto simp: less_imp_le)
    have lt: "\<And>j. j < k \<Longrightarrow> xs ! j < xs ! k"
    proof -
      fix j assume "j < k" then show "xs ! j < xs ! k" using a k' unfolding xs by (cases j) auto
    qed
    show ?thesis using a k' mx lt by (simp add: xs)
  qed
qed

lemma np_max_Max: "xs \<noteq> [] \<Longrightarrow> np_max xs = Inr (Max (set xs))"
  by (cases xs) (simp_all add: np_max_def Max.set_eq_fold[symmetric])

lemma str_nat_0: "str_nat 0 = ''0''"
  by (simp add: str_nat.simps)

subsection \<open>Rules for the calls of a program\<close>

lemma shaped_ret: "S (Inr x) [] \<Longrightarrow> shaped S (ret x)"
  by (simp add: shaped_def ret_def)

lemma shaped_lift_pbind:
  assumes "\<And>e. r = Inl e \<Longrightarrow> S (Inl e) []"
      and "\<And>x. r = Inr x \<Longrightarrow> shaped S (g x)"
  shows "shaped S (pbind (lift r) g)"
proof (cases r)
  case (Inl e)
  with assms(1) show ?thesis by (simp add: shaped_def pbind_def lift_def)
next
  case (Inr x)
  with assms(2) show ?thesis by (simp add: shaped_def pbind_def lift_def)
qed

lemma shaped_step:
  assumes r: "\<And>s. \<exists>h'. p s = (r s, \<lparr>heap = h', trace = trace s @ [c]\<rparr>)"
      and e: "\<And>e. S (Inl e) [c]"
      and g: "\<And>x. shaped (\<lambda>r new. S r (c # new)) (g x)"
  shows "shaped S (pbind p g)"
  unfolding shaped_def
proof
  fix s :: "'a state"
  from r[of s] obtain h' where ps: "p s = (r s, \<lparr>heap = h', trace = trace s @ [c]\<rparr>)" by blast
  show "\<exists>new. trace (snd (pbind p g s)) = trace s @ new \<and> S (fst (pbind p g s)) new"
  proof (cases "r s")
    case (Inl e')
    with ps e[of e'] show ?thesis by (simp add: pbind_def)
  next
    case (Inr x)
    let ?s1 = "\<lparr>heap = h', trace = trace s @ [c]\<rparr>"
    from g[of x] obtain new where n: "trace (snd (g x ?s1)) = trace ?s1 @ new"
      and sn: "S (fst (g x ?s1)) (c # new)"
      unfolding shaped_def by blast
    from ps Inr n sn show ?thesis by (simp add: pbind_def)
  qed
qed

lemma shaped_invoke_pbind:
  assumes "\<And>e. S (Inl e) [c]"
      and "\<And>x. shaped (\<lambda>r new. S r (c # new)) (g x)"
  shows "shaped S (pbind (invoke c f a) g)"
proof (rule shaped_step[where r = "\<lambda>s. fst (f a (heap s))"])
  show "\<exists>h'. invoke c f a s = (fst (f a (heap s)), \<lparr>heap = h', trace = trace s @ [c]\<rparr>)" for s
    by (simp add: invoke_def split: prod.splits)
qed (use assms in auto)

lemma shaped_if:
  "(c \<Longrightarrow> shaped S p) \<Longrightarrow> (\<not> c \<Longrightarrow> shaped S q) \<Longrightarrow> shaped S (if c then p else q)"
  by simp

lemma shaped_at:
  "shaped S p \<Longrightarrow> \<exists>new. trace (snd (p s)) = trace s @ new \<and> S (fst (p s)) new"
  unfolding shaped_def by (rule spec)

lemma shaped_case_prod:
  "(\<And>a b. shaped S (f a b)) \<Longrightarrow> shaped S (case x of (a, b) \<Rightarrow> f a b)"
  by (cases x) simp

subsection \<open>The calls of one iteration\<close>

lemma loop_body_shape:
  "shaped (\<lambda>r new. \<exists>a b p. prefix new
       [Residuals, Periodogram nu0 dnu nfreq, Fap a b, AddKeplerianFromPeriod p, Fit, ShowParam,
        SetKeplerianParam (str_nat kpla) param, ShowParam])
     (loop_body lib model kpla)"
  unfolding loop_body_def Let_def
  by (intro shaped_invoke_pbind shaped_lift_pbind shaped_if shaped_ret shaped_case_prod) simp_all

lemma prefix_filter_length: "prefix xs ys \<Longrightarrow> length (filter P xs) \<le> length (filter P ys)"
  by (auto simp: prefix_def)

lemma loop_body_counts:
  "keplerians_added (trace (snd (loop_body lib model kpla s))) \<le> keplerians_added (trace s) + 1
   \<and> iterations_started (trace (snd (loop_body lib model kpla s))) \<le> iterations_started (trace s) + 1"
proof -
  from shaped_at[OF loop_body_shape, of lib model kpla s] obtain new a b p where
    t: "trace (snd (loop_body lib model kpla s)) = trace s @ new"
    and p: "prefix new [Residuals, Periodogram nu0 dnu nfreq, Fap a b, AddKeplerianFromPeriod p, Fit,
        ShowParam, SetKeplerianParam (str_nat kpla) param, ShowParam]" by blast
  from prefix_filter_length[OF p, of is_add_keplerian] prefix_filter_length[OF p, of is_residuals]
  show ?thesis by (simp add: t keplerians_added_def iterations_started_def)
qed

lemma loop_body_periodogram_calls:
  assumes "Periodogram x y n \<in> set (trace (snd (loop_body lib model kpla \<lparr>heap = h, trace = []\<rparr>)))"
  shows "x = nu0 \<and> y = dnu \<and> n = nfreq"
proof -
  from shaped_at[OF loop_body_shape, of lib model kpla "\<lparr>heap = h, trace = []\<rparr>"] obtain new a b p where
    t: "trace (snd (loop_body lib model kpla \<lparr>heap = h, trace = []\<rparr>)) = new"
    and p: "prefix new [Residuals, Periodogram nu0 dnu nfreq, Fap a b, AddKeplerianFromPeriod p, Fit,
        ShowParam, SetKeplerianParam (str_nat kpla) param, ShowParam]" by auto
  from set_mono_prefix[OF p] assms show ?thesis unfolding t by auto
qed

subsection \<open>The significance test\<close>

lemma loop_body_after_fap:
  assumes "residuals lib model h = (Inr res, h0)"
      and "periodogram lib nu0 dnu nfreq model h0 = (Inr (nu, pwr), h1)"
      and "np_argmax pwr = Inr kmax"
      and "length nu = length pwr"
      and "fap lib (pwr ! kmax) (Max (set nu)) model h1 = (Inr faplvl, h2)"
  shows "loop_body lib model kpla \<lparr>heap = h, trace = tr\<rparr> =
     (if faplvl > fap_threshold
      then (Inr Break, \<lparr>heap = h2, trace = tr @ [Residuals, Periodogram nu0 dnu nfreq,
                                                 Fap (pwr ! kmax) (Max (set nu))]\<rparr>)
      else pbind (invoke (AddKeplerianFromPeriod (2 * pi / nu ! kmax))
                   (add_keplerian_from_period lib (2 * pi / nu ! kmax)) model) (\<lambda>_.
           pbind (invoke Fit (fit lib) model) (\<lambda>_.
           pbind (invoke ShowParam (show_param lib) model) (\<lambda>_.
           pbind (invoke (SetKeplerianParam (str_nat kpla) param)
                    (set_keplerian_param lib (str_nat kpla) param) model) (\<lambda>_.
           pbind (invoke ShowParam (show_param lib) model) (\<lambda>_.
           ret Continue)))))
             \<lparr>heap = h2, trace = tr @ [Residuals, Periodogram nu0 dnu nfreq,
                                      Fap (pwr ! kmax) (Max (set nu))]\<rparr>)"
proof -
  from np_argmax_first_max[OF assms(3)] have k: "kmax < length pwr" by simp
  then have ne: "nu \<noteq> []" using assms(4) by auto
  have k': "kmax < length nu" using k assms(4) by simp
  show ?thesis
    using assms(1,2,3,5) k'
    by (simp add: loop_body_def pbind_def invoke_def lift_def ret_def getitem_def np_max_Max[OF ne])
qed

lemma accept_shape:
  "shaped (\<lambda>r new. \<exists>rest. new = AddKeplerianFromPeriod p # rest
              \<and> set rest \<subseteq> {Fit, ShowParam, SetKeplerianParam l ps})
     (pbind (invoke (AddKeplerianFromPeriod p) fa a) (\<lambda>_.
      pbind (invoke Fit fb a) (\<lambda>_.
      pbind (invoke ShowParam fc a) (\<lambda>_.
      pbind (invoke (SetKeplerianParam l ps) fd a) (\<lambda>_.
      pbind (invoke ShowParam fe a) (\<lambda>_.
      ret Continue))))))"
  by (intro shaped_invoke_pbind shaped_ret) simp_all

text \<open>
  Claim C1, as the code has it. In an iteration whose residuals, periodogram and
  significance calls return, the test is \<open>faplvl > fap_threshold\<close>: when it holds the loop stops
  with no further library call, so no Keplerian component is added; when it does not
  hold, which includes a false-alarm probability equal to the threshold, the next call
  is \<open>add_keplerian_from_period\<close> at the peak period, followed by the refit when that
  call returns; and when the refit, the change of parameter set and the two
  \<open>show_param\<close> calls return too, the iteration ends after exactly these calls and the
  loop goes on.
\<close>

theorem detection_iteration_threshold:
  assumes "residuals lib model h = (Inr res, h0)"
      and "periodogram lib nu0 dnu nfreq model h0 = (Inr (nu, pwr), h1)"
      and "np_argmax pwr = Inr kmax"
      and "length nu = length pwr"
      and "fap lib (pwr ! kmax) (Max (set nu)) model h1 = (Inr faplvl, h2)"
  shows "(faplvl > fap_threshold \<longrightarrow>
            loop_body lib model kpla \<lparr>heap = h, trace = []\<rparr> =
              (Inr Break, \<lparr>heap = h2, trace = [Residuals, Periodogram nu0 dnu nfreq,
                                               Fap (pwr ! kmax) (Max (set nu))]\<rparr>))
       \<and> (\<not> faplvl > fap_threshold \<longrightarrow>
            take 4 (trace (snd (loop_body lib model kpla \<lparr>heap = h, trace = []\<rparr>))) =
              [Residuals, Periodogram nu0 dnu nfreq, Fap (pwr ! kmax) (Max (set nu)),
               AddKeplerianFromPeriod (2 * pi / nu ! kmax)])
       \<and> (\<not> faplvl > fap_threshold \<longrightarrow>
            add_keplerian_from_period lib (2 * pi / nu ! kmax) model h2 = (Inr (), h3) \<longrightarrow>
            take 5 (trace (snd (loop_body lib model kpla \<lparr>heap = h, trace = []\<rparr>))) =
              [Residuals, Periodogram nu0 dnu nfreq, Fap (pwr ! kmax) (Max (set nu)),
               AddKeplerianFromPeriod (2 * pi / nu ! kmax), Fit])
       \<and> (\<not> faplvl > fap_threshold \<longrightarrow>
            add_keplerian_from_period lib (2 * pi / nu ! kmax) model h2 = (Inr (), h3) \<longrightarrow>
            fit lib model h3 = (Inr (), h4) \<longrightarrow>
            show_param lib model h4 = (Inr (), h5) \<longrightarrow>
            set_keplerian_param lib (str_nat kpla) param model h5 = (Inr (), h6) \<longrightarrow>
            show_param lib model h6 = (Inr (), h7) \<longrightarrow>
            loop_body lib model kpla \<lparr>heap = h, trace = []\<rparr> =
              (Inr Continue, \<lparr>heap = h7, trace =
                 [Residuals, Periodogram nu0 dnu nfreq, Fap (pwr ! kmax) (Max (set nu)),
                  AddKeplerianFromPeriod (2 * pi / nu ! kmax), Fit, ShowParam,
                  SetKeplerianParam (str_nat kpla) param, ShowParam]\<rparr>))"
proof -
  note lb = loop_body_after_fap[OF assms, of kpla "[]"]
  have c1: "faplvl > fap_threshold \<longrightarrow>
            loop_body lib model kpla \<lparr>heap = h, trace = []\<rparr> =
              (Inr Break, \<lparr>heap = h2, trace = [Residuals, Periodogram nu0 dnu nfreq,
                                               Fap (pwr ! kmax) (Max (set nu))]\<rparr>)"
    by (simp add: lb)
  have c2: "\<not> faplvl > fap_threshold \<longrightarrow>
            take 4 (trace (snd (loop_body lib model kpla \<lparr>heap = h, trace = []\<rparr>))) =
              [Residuals, Periodogram nu0 dnu nfreq, Fap (pwr ! kmax) (Max (set nu)),
               AddKeplerianFromPeriod (2 * pi / nu ! kmax)]"
    by (simp add: lb pbind_def invoke_def ret_def split: prod.splits sum.splits)
  have c3: "\<not> faplvl > fap_threshold \<longrightarrow>
            add_keplerian_from_period lib (2 * pi / nu ! kmax) model h2 = (Inr (), h3) \<longrightarrow>
            take 5 (trace (snd (loop_body lib model kpla \<lparr>heap = h, trace = []\<rparr>))) =
              [Residuals, Periodogram nu0 dnu nfreq, Fap (pwr ! kmax) (Max (set nu)),
               AddKeplerianFromPeriod (2 * pi / nu ! kmax), Fit]"
    by (simp add: lb pbind_def invoke_def ret_def split: prod.splits sum.splits)
  have c4: "\<not> faplvl > fap_threshold \<longrightarrow>
            add_keplerian_from_period lib (2 * pi / nu ! kmax) model h2 = (Inr (), h3) \<longrightarrow>
            fit lib model h3 = (Inr (), h4) \<longrightarrow>
            show_param lib model h4 = (Inr (), h5) \<longrightarrow>
            set_keplerian_param lib (str_nat kpla) param model h5 = (Inr (), h6) \<longrightarrow>
            show_param lib model h6 = (Inr (), h7) \<longrightarrow>
            loop_body lib model kpla \<lparr>heap = h, trace = []\<rparr> =
              (Inr Continue, \<lparr>heap = h7, trace =
                 [Residuals, Periodogram nu0 dnu nfreq, Fap (pwr ! kmax) (Max (set nu)),
                  AddKeplerianFromPeriod (2 * pi / nu ! kmax), Fit, ShowParam,
                  SetKeplerianParam (str_nat kpla) param, ShowParam]\<rparr>)"
    by (simp add: lb pbind_def invoke_def ret_def)
  from c1 c2 c3 c4 show ?thesis by blast
qed

lemma stub_eval:
  "loop_body (stub f) 0 0 \<lparr>heap = [[]], trace = []\<rparr> =
     (if f > fap_threshold
      then (Inr Break, \<lparr>heap = [[]], trace = [Residuals, Periodogram nu0 dnu nfreq, Fap (9 / 10) 4]\<rparr>)
      else (Inr Continue, \<lparr>heap = [[pi]], trace = [Residuals, Periodogram nu0 dnu nfreq, Fap (9 / 10) 4,
              AddKeplerianFromPeriod pi, Fit, ShowParam, SetKeplerianParam ''0'' param, ShowParam]\<rparr>))"
  by (simp add: loop_body_def pbind_def invoke_def lift_def ret_def getitem_def np_max_def
      np_argmax_def stub_def str_nat_0)

text \<open>
  At a false-alarm probability equal to the threshold the loop does not stop: with the
  small library returning \<open>fap_threshold\<close> the iteration adds a component, refits and
  falls through to the next iteration.
\<close>

theorem detection_iteration_threshold_counterexample:
  "fap (stub fap_threshold) (9 / 10) 4 0 [[]] = (Inr fap_threshold, [[]])
   \<and> fst (loop_body (stub fap_threshold) 0 0 \<lparr>heap = [[]], trace = []\<rparr>) = Inr Continue
   \<and> trace (snd (loop_body (stub fap_threshold) 0 0 \<lparr>heap = [[]], trace = []\<rparr>)) =
       [Residuals, Periodogram nu0 dnu nfreq, Fap (9 / 10) 4, AddKeplerianFromPeriod pi, Fit,
        ShowParam, SetKeplerianParam ''0'' param, ShowParam]"
  by (simp add: stub_eval) (simp add: stub_def)

text \<open>Both branches at concrete inputs: a probability above and one below the threshold.\<close>

theorem detection_iteration_threshold_witness:
  "loop_body (stub (1 / 2)) 0 0 \<lparr>heap = [[]], trace = []\<rparr> =
     (Inr Break, \<lparr>heap = [[]], trace = [Residuals, Periodogram nu0 dnu nfreq, Fap (9 / 10) 4]\<rparr>)
   \<and> loop_body (stub (1 / 2000)) 0 0 \<lparr>heap = [[]], trace = []\<rparr> =
     (Inr Continue, \<lparr>heap = [[pi]], trace = [Residuals, Periodogram nu0 dnu nfreq, Fap (9 / 10) 4,
              AddKeplerianFromPeriod pi, Fit, ShowParam, SetKeplerianParam ''0'' param, ShowParam]\<rparr>)"
  using detection_iteration_threshold[of "stub (1 / 2)" 0 "[[]]" "[]" "[[]]" "[1, 2, 4]"
          "[1 / 10, 9 / 10, 9 / 10]" "[[]]" 1 "1 / 2" "[[]]" 0 "[[]]" "[[]]" "[[]]" "[[]]" "[[]]"]
        detection_iteration_threshold[of "stub (1 / 2000)" 0 "[[]]" "[]" "[[]]" "[1, 2, 4]"
          "[1 / 10, 9 / 10, 9 / 10]" "[[]]" 1 "1 / 2000" "[[]]" 0 "[[pi]]" "[[pi]]" "[[pi]]" "[[pi]]" "[[pi]]"]
  by (simp add: stub_def np_argmax_def fap_threshold_def str_nat_0)

text \<open>
  Claim C2. In an iteration that accepts a signal, \<open>kmax\<close> is the first index at which
  the power is maximal; the significance test that decides the iteration is the call of
  \<open>fap\<close> on the power at \<open>kmax\<close> (and on the largest trial frequency), and the
  component is added by the call of \<open>add_keplerian_from_period\<close> on the period
  \<open>2 pi / nu[kmax]\<close>, on the heap that \<open>fap\<close> left: when this call raises, the
  iteration ends with its exception and its heap, and when it and the calls after it
  return, the iteration ends with the heap they produce. No other period is handed to
  \<open>add_keplerian_from_period\<close> and no other power to \<open>fap\<close>. The trial frequency at
  the peak is assumed non-zero, since numpy divides by zero differently from HOL.
\<close>

theorem accepted_period_is_peak_period:
  assumes "residuals lib model h = (Inr res, h0)"
      and "periodogram lib nu0 dnu nfreq model h0 = (Inr (nu, pwr), h1)"
      and "np_argmax pwr = Inr kmax"
      and "length nu = length pwr"
      and "nu ! kmax \<noteq> 0"
      and "fap lib (pwr ! kmax) (Max (set nu)) model h1 = (Inr faplvl, h2)"
      and "\<not> faplvl > fap_threshold"
  shows "kmax < length pwr \<and> pwr ! kmax = Max (set pwr) \<and> (\<forall>j<kmax. pwr ! j < pwr ! kmax)
       \<and> (add_keplerian_from_period lib (2 * pi / nu ! kmax) model h2 = (Inl e, h3) \<longrightarrow>
            loop_body lib model kpla \<lparr>heap = h, trace = []\<rparr> =
              (Inl e, \<lparr>heap = h3, trace =
                 [Residuals, Periodogram nu0 dnu nfreq, Fap (pwr ! kmax) (Max (set nu)),
                  AddKeplerianFromPeriod (2 * pi / nu ! kmax)]\<rparr>))
       \<and> (add_keplerian_from_period lib (2 * pi / nu ! kmax) model h2 = (Inr (), h3) \<longrightarrow>
            fit lib model h3 = (Inr (), h4) \<longrightarrow>
            show_param lib model h4 = (Inr (), h5) \<longrightarrow>
            set_keplerian_param lib (str_nat kpla) param model h5 = (Inr (), h6) \<longrightarrow>
            show_param lib model h6 = (Inr (), h7) \<longrightarrow>
            loop_body lib model kpla \<lparr>heap = h, trace = []\<rparr> =
              (Inr Continue, \<lparr>heap = h7, trace =
                 [Residuals, Periodogram nu0 dnu nfreq, Fap (pwr ! kmax) (Max (set nu)),
                  AddKeplerianFromPeriod (2 * pi / nu ! kmax), Fit, ShowParam,
                  SetKeplerianParam (str_nat kpla) param, ShowParam]\<rparr>))
       \<and> take 4 (trace (snd (loop_body lib model kpla \<lparr>heap = h, trace = []\<rparr>))) =
           [Residuals, Periodogram nu0 dnu nfreq, Fap (pwr ! kmax) (Max (set nu)),
            AddKeplerianFromPeriod (2 * pi / nu ! kmax)]
       \<and> (\<forall>p. AddKeplerianFromPeriod p \<in> set (trace (snd (loop_body lib model kpla \<lparr>heap = h, trace = []\<rparr>)))
              \<longrightarrow> p = 2 * pi / nu ! kmax)
       \<and> (\<forall>x y. Fap x y \<in> set (trace (snd (loop_body lib model kpla \<lparr>heap = h, trace = []\<rparr>)))
              \<longrightarrow> x = pwr ! kmax)"
proof -
  let ?s2 = "\<lparr>heap = h2, trace = [Residuals, Periodogram nu0 dnu nfreq, Fap (pwr ! kmax) (Max (set nu))]\<rparr>"
  let ?acc = "pbind (invoke (AddKeplerianFromPeriod (2 * pi / nu ! kmax))
                   (add_keplerian_from_period lib (2 * pi / nu ! kmax)) model) (\<lambda>_.
           pbind (invoke Fit (fit lib) model) (\<lambda>_.
           pbind (invoke ShowParam (show_param lib) model) (\<lambda>_.
           pbind (invoke (SetKeplerianParam (str_nat kpla) param)
                    (set_keplerian_param lib (str_nat kpla) param) model) (\<lambda>_.
           pbind (invoke ShowParam (show_param lib) model) (\<lambda>_.
           ret Continue)))))"
  have lb: "loop_body lib model kpla \<lparr>heap = h, trace = []\<rparr> = ?acc ?s2"
    using loop_body_after_fap[OF assms(1,2,3,4,6), of kpla "[]"] assms(7) by simp
  from shaped_at[OF accept_shape[where p = "2 * pi / nu ! kmax" and l = "str_nat kpla" and ps = param
        and a = model and fa = "add_keplerian_from_period lib (2 * pi / nu ! kmax)" and fb = "fit lib"
        and fc = "show_param lib" and fd = "set_keplerian_param lib (str_nat kpla) param"
        and fe = "show_param lib"], of ?s2]
  obtain rest where
    t: "trace (snd (?acc ?s2)) =
            [Residuals, Periodogram nu0 dnu nfreq, Fap (pwr ! kmax) (Max (set nu)),
             AddKeplerianFromPeriod (2 * pi / nu ! kmax)] @ rest"
    and r: "set rest \<subseteq> {Fit, ShowParam, SetKeplerianParam (str_nat kpla) param}"
    by auto
  have a: "\<forall>p. AddKeplerianFromPeriod p \<in> set (trace (snd (loop_body lib model kpla \<lparr>heap = h, trace = []\<rparr>)))
              \<longrightarrow> p = 2 * pi / nu ! kmax"
    using r unfolding lb t by auto
  have f: "\<forall>x y. Fap x y \<in> set (trace (snd (loop_body lib model kpla \<lparr>heap = h, trace = []\<rparr>)))
              \<longrightarrow> x = pwr ! kmax"
    using r unfolding lb t by auto
  have b: "take 4 (trace (snd (loop_body lib model kpla \<lparr>heap = h, trace = []\<rparr>))) =
           [Residuals, Periodogram nu0 dnu nfreq, Fap (pwr ! kmax) (Max (set nu)),
            AddKeplerianFromPeriod (2 * pi / nu ! kmax)]"
    unfolding lb t by simp
  have c: "add_keplerian_from_period lib (2 * pi / nu ! kmax) model h2 = (Inl e, h3) \<longrightarrow>
            loop_body lib model kpla \<lparr>heap = h, trace = []\<rparr> =
              (Inl e, \<lparr>heap = h3, trace =
                 [Residuals, Periodogram nu0 dnu nfreq, Fap (pwr ! kmax) (Max (set nu)),
                  AddKeplerianFromPeriod (2 * pi / nu ! kmax)]\<rparr>)"
    unfolding lb by (simp add: pbind_def invoke_def)
  have d: "add_keplerian_from_period lib (2 * pi / nu ! kmax) model h2 = (Inr (), h3) \<longrightarrow>
            fit lib model h3 = (Inr (), h4) \<longrightarrow>
            show_param lib model h4 = (Inr (), h5) \<longrightarrow>
            set_keplerian_param lib (str_nat kpla) param model h5 = (Inr (), h6) \<longrightarrow>
            show_param lib model h6 = (Inr (), h7) \<longrightarrow>
            loop_body lib model kpla \<lparr>heap = h, trace = []\<rparr> =
              (Inr Continue, \<lparr>heap = h7, trace =
                 [Residuals, Periodogram nu0 dnu nfreq, Fap (pwr ! kmax) (Max (set nu)),
                  AddKeplerianFromPeriod (2 * pi / nu ! kmax), Fit, ShowParam,
                  SetKeplerianParam (str_nat kpla) param, ShowParam]\<rparr>)"
    unfolding lb by (simp add: pbind_def invoke_def ret_def)
  from np_argmax_first_max[OF assms(3)] a b c d f show ?thesis by blast
qed

text \<open>With the power maximal at indices 1 and 2, the first one is taken: the period
  \<open>2 pi / 2\<close> is the one the model object receives.\<close>

theorem accepted_period_is_peak_period_witness:
  "np_argmax [1 / 10, 9 / 10, 9 / 10] = Inr 1
   \<and> Max (set [1 / 10, 9 / 10, 9 / 10 :: real]) = 9 / 10
   \<and> loop_body (stub (1 / 2000)) 0 0 \<lparr>heap = [[]], trace = []\<rparr> =
       (Inr Continue, \<lparr>heap = [[2 * pi / 2]], trace =
          [Residuals, Periodogram nu0 dnu nfreq, Fap (9 / 10) 4, AddKeplerianFromPeriod (2 * pi / 2),
           Fit, ShowParam, SetKeplerianParam ''0'' param, ShowParam]\<rparr>)"
  using accepted_period_is_peak_period[of "stub (1 / 2000)" 0 "[[]]" "[]" "[[]]" "[1, 2, 4]"
          "[1 / 10, 9 / 10, 9 / 10]" "[[]]" 1 "1 / 2000" "[[]]" LibraryError "[[pi]]" 0
          "[[pi]]" "[[pi]]" "[[pi]]" "[[pi]]"]
  by (simp add: stub_def np_argmax_def fap_threshold_def str_nat_0)

subsection \<open>The periodogram call\<close>

lemma settings: "nfreq = 10000" "Pmax = 50000" "Pmin = 5" "nu0 = 2 * pi / Pmax"
  "dnu = (2 * pi / Pmin - nu0) / (real nfreq - 1)"
  by (simp_all add: nfreq_def Pmax_def Pmin_def nu0_def dnu_def)

lemma dnu_nu0: "dnu = nu0"
  by (simp add: dnu_def nu0_def nfreq_def Pmin_def Pmax_def field_simps)

lemma nu0_pos: "0 < nu0"
  by (simp add: nu0_def Pmax_def)

lemma grid_length: "length (frequency_grid x y n) = n"
  by (simp add: frequency_grid_def)

lemma grid_nth: "k < n \<Longrightarrow> frequency_grid x y n ! k = x + real k * y"
  by (simp add: frequency_grid_def)

lemma grid_nth_settings:
  "k < nfreq \<Longrightarrow> frequency_grid nu0 dnu nfreq ! k = (real k + 1) * nu0"
  by (simp add: grid_nth dnu_nu0 algebra_simps)

lemma grid_hd: "hd (frequency_grid nu0 dnu nfreq) = nu0"
proof -
  have "frequency_grid nu0 dnu nfreq \<noteq> []" using grid_length[of nu0 dnu nfreq] by (auto simp: nfreq_def)
  then show ?thesis using grid_nth[of 0 nfreq nu0 dnu] by (simp add: hd_conv_nth nfreq_def)
qed

lemma grid_last: "last (frequency_grid nu0 dnu nfreq) = 2 * pi / Pmin"
proof -
  have ne: "frequency_grid nu0 dnu nfreq \<noteq> []" using grid_length[of nu0 dnu nfreq] by (auto simp: nfreq_def)
  have k: "nfreq - 1 < nfreq" by (simp add: nfreq_def)
  have "last (frequency_grid nu0 dnu nfreq) = (real (nfreq - 1) + 1) * nu0"
    using ne grid_nth_settings[OF k] by (simp add: last_conv_nth grid_length)
  also have "\<dots> = 2 * pi / Pmin" by (simp add: nfreq_def nu0_def Pmin_def Pmax_def)
  finally show ?thesis .
qed

lemma grid_Max: "Max (set (frequency_grid nu0 dnu nfreq)) = 2 * pi / Pmin"
proof (rule Max_eqI)
  show "finite (set (frequency_grid nu0 dnu nfreq))" by simp
next
  fix y assume "y \<in> set (frequency_grid nu0 dnu nfreq)"
  then obtain k where k: "k < nfreq" and y: "y = frequency_grid nu0 dnu nfreq ! k"
    by (auto simp: in_set_conv_nth grid_length)
  have "real k + 1 \<le> 10000" using k by (simp add: nfreq_def)
  then have "(real k + 1) * nu0 \<le> 10000 * nu0" using nu0_pos by (simp add: mult_right_mono)
  also have "10000 * nu0 = 2 * pi / Pmin" by (simp add: nu0_def Pmin_def Pmax_def)
  finally show "y \<le> 2 * pi / Pmin" using y grid_nth_settings[OF k] by simp
next
  have "frequency_grid nu0 dnu nfreq \<noteq> []" using grid_length[of nu0 dnu nfreq] by (auto simp: nfreq_def)
  then have "last (frequency_grid nu0 dnu nfreq) \<in> set (frequency_grid nu0 dnu nfreq)" by (rule last_in_set)
  then show "2 * pi / Pmin \<in> set (frequency_grid nu0 dnu nfreq)" by (simp add: grid_last)
qed

lemma grid_period:
  assumes "k < nfreq"
  shows "2 * pi / frequency_grid nu0 dnu nfreq ! k = Pmax / (real k + 1)"
    and "Pmin \<le> 2 * pi / frequency_grid nu0 dnu nfreq ! k"
    and "2 * pi / frequency_grid nu0 dnu nfreq ! k \<le> Pmax"
proof -
  have a: "real k + 1 \<noteq> 0" by (simp add: add_nonneg_eq_0_iff)
  have b: "real k * 2 + 2 \<noteq> 0" by (simp add: add_nonneg_eq_0_iff)
  have "50000 / (real k + 1) = 100000 / (real k * 2 + 2)"
    using a b by (simp add: field_simps)
  then have "2 * pi / ((real k + 1) * nu0) = Pmax / (real k + 1)"
    by (simp add: nu0_def Pmax_def)
  then have p: "2 * pi / frequency_grid nu0 dnu nfreq ! k = Pmax / (real k + 1)"
    by (simp only: grid_nth_settings[OF assms])
  show "2 * pi / frequency_grid nu0 dnu nfreq ! k = Pmax / (real k + 1)" by (rule p)
  have k: "real k + 1 \<le> 10000" "1 \<le> real k + 1" using assms by (simp_all add: nfreq_def)
  show "Pmin \<le> 2 * pi / frequency_grid nu0 dnu nfreq ! k"
    unfolding p using k by (simp add: Pmin_def Pmax_def field_simps)
  show "2 * pi / frequency_grid nu0 dnu nfreq ! k \<le> Pmax"
    unfolding p using k by (simp add: Pmax_def field_simps)
qed

text \<open>
  Claim C3. With a periodogram that returns the trial frequencies of the spec, an
  iteration calls it with the settings \<open>nu0\<close>, \<open>dnu\<close>, \<open>nfreq\<close> of the cell and
  goes on with what it returns: the frequencies \<open>nu\<close> of the loop are the 10000
  frequencies \<open>nu0 + k dnu\<close>, equally spaced by \<open>dnu\<close>, the first that of the period
  \<open>Pmax = 50000\<close> and the last that of the period \<open>Pmin = 5\<close> (in exact arithmetic);
  the largest of them, handed to \<open>fap\<close>, is the last; the peak period lies between
  \<open>Pmin\<close> and \<open>Pmax\<close>; and the iteration ends as the significance test on the
  returned power and the calls after it decide. No periodogram call of an iteration has
  other arguments.
\<close>

theorem periodogram_grid:
  assumes "periodogram_on_grid lib"
      and "residuals lib model h = (Inr res, h0)"
      and "periodogram lib nu0 dnu nfreq model h0 = (Inr (nu, pwr), h1)"
      and "np_argmax pwr = Inr kmax"
      and "fap lib (pwr ! kmax) (2 * pi / Pmin) model h1 = (Inr faplvl, h2)"
  shows "nfreq = 10000 \<and> Pmax = 50000 \<and> Pmin = 5 \<and> nu0 = 2 * pi / Pmax
       \<and> dnu = (2 * pi / Pmin - nu0) / (real nfreq - 1)
       \<and> nu = frequency_grid nu0 dnu nfreq \<and> length nu = 10000 \<and> length pwr = 10000
       \<and> (k < 10000 \<longrightarrow> nu ! k = nu0 + real k * dnu)
       \<and> (Suc k < 10000 \<longrightarrow> nu ! Suc k - nu ! k = dnu)
       \<and> 2 * pi / hd nu = Pmax \<and> 2 * pi / last nu = Pmin
       \<and> Max (set nu) = 2 * pi / Pmin
       \<and> kmax < 10000 \<and> nu ! kmax = nu0 + real kmax * dnu
       \<and> Pmin \<le> 2 * pi / nu ! kmax \<and> 2 * pi / nu ! kmax \<le> Pmax
       \<and> (faplvl > fap_threshold \<longrightarrow>
            loop_body lib model kpla \<lparr>heap = h, trace = []\<rparr> =
              (Inr Break, \<lparr>heap = h2, trace = [Residuals, Periodogram nu0 dnu nfreq,
                                               Fap (pwr ! kmax) (2 * pi / Pmin)]\<rparr>))
       \<and> (\<not> faplvl > fap_threshold \<longrightarrow>
            add_keplerian_from_period lib (2 * pi / (nu0 + real kmax * dnu)) model h2 = (Inl e, h3) \<longrightarrow>
            loop_body lib model kpla \<lparr>heap = h, trace = []\<rparr> =
              (Inl e, \<lparr>heap = h3, trace =
                 [Residuals, Periodogram nu0 dnu nfreq, Fap (pwr ! kmax) (2 * pi / Pmin),
                  AddKeplerianFromPeriod (2 * pi / (nu0 + real kmax * dnu))]\<rparr>))
       \<and> (\<not> faplvl > fap_threshold \<longrightarrow>
            add_keplerian_from_period lib (2 * pi / (nu0 + real kmax * dnu)) model h2 = (Inr (), h3) \<longrightarrow>
            fit lib model h3 = (Inr (), h4) \<longrightarrow>
            show_param lib model h4 = (Inr (), h5) \<longrightarrow>
            set_keplerian_param lib (str_nat kpla) param model h5 = (Inr (), h6) \<longrightarrow>
            show_param lib model h6 = (Inr (), h7) \<longrightarrow>
            loop_body lib model kpla \<lparr>heap = h, trace = []\<rparr> =
              (Inr Continue, \<lparr>heap = h7, trace =
                 [Residuals, Periodogram nu0 dnu nfreq, Fap (pwr ! kmax) (2 * pi / Pmin),
                  AddKeplerianFromPeriod (2 * pi / (nu0 + real kmax * dnu)), Fit, ShowParam,
                  SetKeplerianParam (str_nat kpla) param, ShowParam]\<rparr>))
       \<and> (\<forall>x y n. Periodogram x y n \<in> set (trace (snd (loop_body lib model kpla \<lparr>heap = h, trace = []\<rparr>)))
              \<longrightarrow> x = nu0 \<and> y = dnu \<and> n = nfreq)"
proof -
  from assms(1,3) have nu: "nu = frequency_grid nu0 dnu nfreq" and lp: "length pwr = nfreq"
    unfolding periodogram_on_grid_def by blast+
  have ln: "length nu = nfreq" by (simp add: nu grid_length)
  have ll: "length nu = length pwr" by (simp add: ln lp)
  from np_argmax_first_max[OF assms(4)] have km: "kmax < nfreq" by (simp add: lp)
  have mx: "Max (set nu) = 2 * pi / Pmin" by (simp add: nu grid_Max)
  have nk: "nu ! kmax = nu0 + real kmax * dnu" by (simp add: nu grid_nth[OF km])
  note lb = loop_body_after_fap[OF assms(2,3,4) ll, unfolded mx nk, OF assms(5), of kpla "[]"]
  have c1: "nfreq = 10000 \<and> Pmax = 50000 \<and> Pmin = 5 \<and> nu0 = 2 * pi / Pmax
       \<and> dnu = (2 * pi / Pmin - nu0) / (real nfreq - 1)"
    using settings by blast
  have c2: "length nu = 10000 \<and> length pwr = 10000" using ln lp settings(1) by simp
  have c3: "k < 10000 \<longrightarrow> nu ! k = nu0 + real k * dnu"
    using grid_nth[of k nfreq nu0 dnu] by (simp add: nu settings(1))
  have c4: "Suc k < 10000 \<longrightarrow> nu ! Suc k - nu ! k = dnu"
  proof
    assume a: "Suc k < 10000"
    then have "Suc k < nfreq" "k < nfreq" by (simp_all add: settings(1))
    then show "nu ! Suc k - nu ! k = dnu" by (simp add: nu grid_nth algebra_simps)
  qed
  have c5: "2 * pi / hd nu = Pmax \<and> 2 * pi / last nu = Pmin"
    by (simp add: nu grid_hd grid_last) (simp add: nu0_def Pmax_def Pmin_def)
  have c6: "kmax < 10000" using km settings(1) by simp
  have c7: "Pmin \<le> 2 * pi / nu ! kmax \<and> 2 * pi / nu ! kmax \<le> Pmax"
    using grid_period(2,3)[OF km] by (simp add: nu)
  have c8: "faplvl > fap_threshold \<longrightarrow>
            loop_body lib model kpla \<lparr>heap = h, trace = []\<rparr> =
              (Inr Break, \<lparr>heap = h2, trace = [Residuals, Periodogram nu0 dnu nfreq,
                                               Fap (pwr ! kmax) (2 * pi / Pmin)]\<rparr>)"
    by (simp add: lb)
  have c9: "\<not> faplvl > fap_threshold \<longrightarrow>
            add_keplerian_from_period lib (2 * pi / (nu0 + real kmax * dnu)) model h2 = (Inl e, h3) \<longrightarrow>
            loop_body lib model kpla \<lparr>heap = h, trace = []\<rparr> =
              (Inl e, \<lparr>heap = h3, trace =
                 [Residuals, Periodogram nu0 dnu nfreq, Fap (pwr ! kmax) (2 * pi / Pmin),
                  AddKeplerianFromPeriod (2 * pi / (nu0 + real kmax * dnu))]\<rparr>)"
    by (simp add: lb pbind_def invoke_def)
  have c10: "\<not> faplvl > fap_threshold \<longrightarrow>
            add_keplerian_from_period lib (2 * pi / (nu0 + real kmax * dnu)) model h2 = (Inr (), h3) \<longrightarrow>
            fit lib model h3 = (Inr (), h4) \<longrightarrow>
            show_param lib model h4 = (Inr (), h5) \<longrightarrow>
            set_keplerian_param lib (str_nat kpla) param model h5 = (Inr (), h6) \<longrightarrow>
            show_param lib model h6 = (Inr (), h7) \<longrightarrow>
            loop_body lib model kpla \<lparr>heap = h, trace = []\<rparr> =
              (Inr Continue, \<lparr>heap = h7, trace =
                 [Residuals, Periodogram nu0 dnu nfreq, Fap (pwr ! kmax) (2 * pi / Pmin),
                  AddKeplerianFromPeriod (2 * pi / (nu0 + real kmax * dnu)), Fit, ShowParam,
                  SetKeplerianParam (str_nat kpla) param, ShowParam]\<rparr>)"
    by (simp add: lb pbind_def invoke_def ret_def)
  have c11: "\<forall>x y n. Periodogram x y n \<in> set (trace (snd (loop_body lib model kpla \<lparr>heap = h, trace = []\<rparr>)))
              \<longrightarrow> x = nu0 \<and> y = dnu \<and> n = nfreq"
    using loop_body_periodogram_calls[of _ _ _ lib model kpla h] by blast
  from c1 nu c2 c3 c4 c5 mx c6 nk c7 c8 c9 c10 c11 show ?thesis by blast
qed

lemma np_argmax_nonempty: "xs \<noteq> [] \<Longrightarrow> \<exists>k. np_argmax xs = Inr k"
  by (cases xs) (simp_all add: np_argmax_def)

lemma recording_on_grid: "periodogram_on_grid (recording f)"
  by (simp add: periodogram_on_grid_def recording_def grid_length)

lemma recording_peak:
  "np_argmax (map (\<lambda>k. if k = 99 then 1 else (0::real)) [0..<nfreq]) = Inr 99"
proof -
  let ?p = "map (\<lambda>k. if k = 99 then 1 else (0::real)) [0..<nfreq]"
  have n: "99 < nfreq" by (simp add: nfreq_def)
  then have ne: "?p \<noteq> []" by auto
  from np_argmax_nonempty[OF ne] obtain k where k: "np_argmax ?p = Inr k" by blast
  from np_argmax_first_max[OF k] have kl: "k < nfreq" and km: "?p ! k = Max (set ?p)" by simp_all
  have "Max (set ?p) = 1"
  proof (rule Max_eqI)
    show "finite (set ?p)" by simp
    show "y \<le> 1" if "y \<in> set ?p" for y using that by auto
    have "?p ! 99 \<in> set ?p" using n by (intro nth_mem) simp
    then show "1 \<in> set ?p" using n by simp
  qed
  with km kl have "k = 99" by (simp split: if_splits)
  with k show ?thesis by simp
qed

lemma period_500: "2 * pi / (nu0 + 99 * dnu) = 500"
  by (simp add: dnu_nu0) (simp add: nu0_def Pmax_def)

text \<open>The second library: its periodogram returns the grid, the peak at index 99 is the
  period of 500 days, and the model object receives it.\<close>

theorem periodogram_grid_witness:
  "periodogram_on_grid (recording (1 / 2000))
   \<and> periodogram (recording (1 / 2000)) nu0 dnu nfreq 0 [toy0] =
       (Inr (frequency_grid nu0 dnu nfreq, map (\<lambda>k. if k = 99 then 1 else 0) [0..<nfreq]), [toy0])
   \<and> length (frequency_grid nu0 dnu nfreq) = 10000
   \<and> 2 * pi / hd (frequency_grid nu0 dnu nfreq) = 50000
   \<and> 2 * pi / last (frequency_grid nu0 dnu nfreq) = 5
   \<and> loop_body (recording (1 / 2000)) 0 0 \<lparr>heap = [toy0], trace = []\<rparr> =
       (Inr Continue, \<lparr>heap = [toy0\<lparr>toy_kep := [500]\<rparr>], trace =
          [Residuals, Periodogram nu0 dnu nfreq, Fap 1 (2 * pi / 5), AddKeplerianFromPeriod 500,
           Fit, ShowParam, SetKeplerianParam ''0'' param, ShowParam]\<rparr>)"
proof -
  let ?lib = "recording (1 / 2000)"
  let ?pw = "map (\<lambda>k. if k = 99 then 1 else (0::real)) [0..<nfreq]"
  have n: "99 < nfreq" by (simp add: nfreq_def)
  have a1: "residuals ?lib 0 [toy0] = (Inr [0, 0], [toy0])"
    by (simp add: recording_def toy0_def)
  have a2: "periodogram ?lib nu0 dnu nfreq 0 [toy0] = (Inr (frequency_grid nu0 dnu nfreq, ?pw), [toy0])"
    by (simp add: recording_def)
  have a3: "fap ?lib (?pw ! 99) (2 * pi / Pmin) 0 [toy0] = (Inr (1 / 2000), [toy0])"
    by (simp add: recording_def)
  have b1: "add_keplerian_from_period ?lib (2 * pi / (nu0 + real 99 * dnu)) 0 [toy0]
              = (Inr (), [toy0\<lparr>toy_kep := [500]\<rparr>])"
    using period_500 by (simp add: recording_def toy0_def)
  have b2: "fit ?lib 0 [toy0\<lparr>toy_kep := [500]\<rparr>] = (Inr (), [toy0\<lparr>toy_kep := [500]\<rparr>])"
    "show_param ?lib 0 [toy0\<lparr>toy_kep := [500]\<rparr>] = (Inr (), [toy0\<lparr>toy_kep := [500]\<rparr>])"
    "set_keplerian_param ?lib (str_nat 0) param 0 [toy0\<lparr>toy_kep := [500]\<rparr>] = (Inr (), [toy0\<lparr>toy_kep := [500]\<rparr>])"
    by (simp_all add: recording_def)
  have th: "\<not> 1 / 2000 > fap_threshold" by (simp add: fap_threshold_def)
  have pw: "?pw ! 99 = 1" using n by simp
  note g = periodogram_grid[OF recording_on_grid a1 a2 recording_peak a3,
      where k = 0 and kpla = 0 and e = LibraryError and ?h3.0 = "[toy0\<lparr>toy_kep := [500]\<rparr>]"
        and ?h4.0 = "[toy0\<lparr>toy_kep := [500]\<rparr>]" and ?h5.0 = "[toy0\<lparr>toy_kep := [500]\<rparr>]"
        and ?h6.0 = "[toy0\<lparr>toy_kep := [500]\<rparr>]" and ?h7.0 = "[toy0\<lparr>toy_kep := [500]\<rparr>]"]
  from g have l: "length (frequency_grid nu0 dnu nfreq) = 10000"
    and e: "2 * pi / hd (frequency_grid nu0 dnu nfreq) = Pmax" "2 * pi / last (frequency_grid nu0 dnu nfreq) = Pmin"
    and pm: "Pmax = 50000" "Pmin = 5"
    and r: "loop_body ?lib 0 0 \<lparr>heap = [toy0], trace = []\<rparr> =
              (Inr Continue, \<lparr>heap = [toy0\<lparr>toy_kep := [500]\<rparr>], trace =
                 [Residuals, Periodogram nu0 dnu nfreq, Fap (?pw ! 99) (2 * pi / Pmin),
                  AddKeplerianFromPeriod (2 * pi / (nu0 + real 99 * dnu)), Fit, ShowParam,
                  SetKeplerianParam (str_nat 0) param, ShowParam]\<rparr>)"
    using th b1 b2 by blast+
  have r': "loop_body ?lib 0 0 \<lparr>heap = [toy0], trace = []\<rparr> =
       (Inr Continue, \<lparr>heap = [toy0\<lparr>toy_kep := [500]\<rparr>], trace =
          [Residuals, Periodogram nu0 dnu nfreq, Fap 1 (2 * pi / 5), AddKeplerianFromPeriod 500,
           Fit, ShowParam, SetKeplerianParam ''0'' param, ShowParam]\<rparr>)"
    using r period_500 by (simp only: pw pm str_nat_0 of_nat_numeral)
  from recording_on_grid[of "1 / 2000"] a2 l e[unfolded pm] r' show ?thesis by blast
qed

subsection \<open>The loop as a whole\<close>

lemma stub_cell_eval:
  "detection_cell (stub (1 / 2000)) 0 \<lparr>heap = [[7]], trace = []\<rparr> =
     (Inr 1, \<lparr>heap = [[7], [7, pi]], trace = [Residuals, Periodogram nu0 dnu nfreq, Fap (9 / 10) 4,
              AddKeplerianFromPeriod pi, Fit, ShowParam, SetKeplerianParam ''0'' param, ShowParam]\<rparr>)"
  by (simp add: detection_cell_def detection_loop_def deepcopy_def loop_body_def pbind_def invoke_def
      lift_def ret_def getitem_def np_max_def np_argmax_def stub_def str_nat_0 fap_threshold_def)

lemma for_loop_counts:
  "keplerians_added (trace (snd (for_loop (loop_body lib model) ks s))) \<le> keplerians_added (trace s) + length ks
   \<and> iterations_started (trace (snd (for_loop (loop_body lib model) ks s))) \<le> iterations_started (trace s) + length ks"
proof (induction ks arbitrary: s)
  case Nil
  then show ?case by simp
next
  case (Cons k ks)
  obtain r s' where b: "loop_body lib model k s = (r, s')" by (cases "loop_body lib model k s")
  from loop_body_counts[of lib model k s] b
  have c: "keplerians_added (trace s') \<le> keplerians_added (trace s) + 1"
          "iterations_started (trace s') \<le> iterations_started (trace s) + 1" by simp_all
  show ?case
  proof (cases r)
    case (Inl e)
    with b c show ?thesis by simp
  next
    case (Inr fl)
    show ?thesis
    proof (cases fl)
      case Break
      with b c Inr show ?thesis by simp
    next
      case Continue
      with b c Inr Cons.IH[of s'] show ?thesis by simp
    qed
  qed
qed

lemma loop_body_first_call:
  "\<exists>rest. trace (snd (loop_body lib model kpla \<lparr>heap = h, trace = []\<rparr>)) = Residuals # rest"
proof -
  have "shaped (\<lambda>r new. \<exists>rest. new = Residuals # rest) (loop_body lib model kpla)"
    unfolding loop_body_def Let_def
    by (intro shaped_invoke_pbind shaped_lift_pbind shaped_if shaped_ret shaped_case_prod) simp_all
  from shaped_at[OF this, of "\<lparr>heap = h, trace = []\<rparr>"] show ?thesis by simp
qed

lemma one_iteration_trace:
  "trace (snd (detection_loop lib 1 model s)) = trace (snd (loop_body lib model 0 s))"
  by (simp add: detection_loop_def split: prod.splits sum.splits flow.splits)

lemma cell_trace:
  "trace (snd (detection_cell lib single_star_model \<lparr>heap = h, trace = []\<rparr>)) =
     trace (snd (loop_body lib (length h) 0 \<lparr>heap = h @ [h ! single_star_model], trace = []\<rparr>))"
proof -
  have "trace (snd (detection_cell lib single_star_model \<lparr>heap = h, trace = []\<rparr>)) =
           trace (snd (detection_loop lib 1 (length h) \<lparr>heap = h @ [h ! single_star_model], trace = []\<rparr>))"
    by (simp add: detection_cell_def pbind_def deepcopy_def ret_def split: prod.splits sum.splits)
  then show ?thesis by (simp only: one_iteration_trace)
qed

lemma cell_iterations:
  "iterations_started (trace (snd (detection_cell lib single_star_model \<lparr>heap = h, trace = []\<rparr>))) = 1"
proof -
  let ?s = "\<lparr>heap = h @ [h ! single_star_model], trace = []\<rparr>"
  from loop_body_first_call[of lib "length h" 0 "h @ [h ! single_star_model]"] obtain rest where
    r: "trace (snd (loop_body lib (length h) 0 ?s)) = Residuals # rest" by blast
  then have "1 \<le> iterations_started (trace (snd (loop_body lib (length h) 0 ?s)))"
    by (simp add: iterations_started_def)
  moreover from loop_body_counts[of lib "length h" 0 ?s]
  have "iterations_started (trace (snd (loop_body lib (length h) 0 ?s))) \<le> 1"
    by (simp add: iterations_started_def)
  ultimately show ?thesis unfolding cell_trace by simp
qed

text \<open>
  Claim C4. The loop is a recursion over the list of indices \<open>range(n)\<close>, so it
  returns for every library, model and heap (every library call being taken to return),
  having started at most \<open>n\<close> iterations and added at most \<open>n\<close> Keplerian components;
  the cell runs it with \<open>n = 1\<close>: it starts exactly one iteration and adds at most one
  component.
\<close>

theorem detection_loop_bounded:
  "keplerians_added (trace (snd (detection_loop lib n model \<lparr>heap = h, trace = []\<rparr>))) \<le> n
   \<and> iterations_started (trace (snd (detection_loop lib n model \<lparr>heap = h, trace = []\<rparr>))) \<le> n
   \<and> keplerians_added (trace (snd (detection_cell lib single_star_model \<lparr>heap = h, trace = []\<rparr>))) \<le> 1
   \<and> iterations_started (trace (snd (detection_cell lib single_star_model \<lparr>heap = h, trace = []\<rparr>))) = 1"
proof -
  have a: "\<And>s. keplerians_added (trace (snd (detection_loop lib n model s))) \<le> keplerians_added (trace s) + n
     \<and> iterations_started (trace (snd (detection_loop lib n model s))) \<le> iterations_started (trace s) + n"
    for n model
    using for_loop_counts[of lib model "[0..<n]"] by (simp add: detection_loop_def)
  have t: "trace (snd (detection_cell lib single_star_model \<lparr>heap = h, trace = []\<rparr>)) =
           trace (snd (detection_loop lib 1 (length h) \<lparr>heap = h @ [h ! single_star_model], trace = []\<rparr>))"
    by (simp add: detection_cell_def pbind_def deepcopy_def ret_def split: prod.splits sum.splits)
  have c: "keplerians_added (trace (snd (detection_cell lib single_star_model \<lparr>heap = h, trace = []\<rparr>))) \<le> 1"
    using a[of 1 "length h" "\<lparr>heap = h @ [h ! single_star_model], trace = []\<rparr>"]
    unfolding t by (simp add: keplerians_added_def)
  show ?thesis
    using a[of n model "\<lparr>heap = h, trace = []\<rparr>"] c cell_iterations[of lib single_star_model h]
    by (simp add: keplerians_added_def iterations_started_def)
qed

text \<open>A significant peak in the one iteration: one component is added, and no more.\<close>

theorem detection_loop_bounded_witness:
  "keplerians_added (trace (snd (detection_cell (stub (1 / 2000)) 0 \<lparr>heap = [[7]], trace = []\<rparr>))) \<le> 1
   \<and> iterations_started (trace (snd (detection_cell (stub (1 / 2000)) 0 \<lparr>heap = [[7]], trace = []\<rparr>))) = 1
   \<and> keplerians_added (trace (snd (detection_cell (stub (1 / 2000)) 0 \<lparr>heap = [[7]], trace = []\<rparr>))) = 1"
  using detection_loop_bounded[of "stub (1 / 2000)" 1 0 "[[7]]" 0]
  by (simp add: stub_cell_eval keplerians_added_def)

subsection \<open>The original model is left alone\<close>

lemma frames_ret: "frames a (ret x)"
  by (simp add: frames_def ret_def)

lemma frames_lift: "frames a (lift r)"
  by (simp add: frames_def lift_def)

lemma frames_invoke: "receiver_only f \<Longrightarrow> frames a (invoke c f a)"
  by (simp add: frames_def receiver_only_def invoke_def split: prod.splits)
     (metis snd_conv)

lemma frames_pbind:
  assumes p: "frames a p" and f: "\<And>x. frames a (f x)"
  shows "frames a (pbind p f)"
  unfolding frames_def
proof (intro allI impI)
  fix s :: "'a state"
  assume a: "a < length (heap s)"
  obtain r s' where ps: "p s = (r, s')" by (cases "p s")
  from p a ps have l1: "length (heap s) \<le> length (heap s')"
    and k1: "\<And>b. b < length (heap s) \<Longrightarrow> b \<noteq> a \<Longrightarrow> heap s' ! b = heap s ! b"
    by (auto simp: frames_def)
  show "length (heap s) \<le> length (heap (snd (pbind p f s)))
        \<and> (\<forall>b<length (heap s). b \<noteq> a \<longrightarrow> heap (snd (pbind p f s)) ! b = heap s ! b)"
  proof (cases r)
    case (Inl e)
    with ps l1 k1 show ?thesis by (simp add: pbind_def)
  next
    case (Inr x)
    have a': "a < length (heap s')" using a l1 by simp
    from f[of x] a' have l2: "length (heap s') \<le> length (heap (snd (f x s')))"
      and k2: "\<And>b. b < length (heap s') \<Longrightarrow> b \<noteq> a \<Longrightarrow> heap (snd (f x s')) ! b = heap s' ! b"
      by (auto simp: frames_def)
    have "\<And>b. b < length (heap s) \<Longrightarrow> b \<noteq> a \<Longrightarrow> heap (snd (f x s')) ! b = heap s ! b"
      using k1 k2 l1 by (metis less_le_trans)
    with ps Inr l1 l2 show ?thesis by (simp add: pbind_def)
  qed
qed

lemma frames_if: "frames a p \<Longrightarrow> frames a q \<Longrightarrow> frames a (if c then p else q)"
  by simp

lemma loop_body_frames:
  assumes "loop_methods_receiver_only lib"
  shows "frames model (loop_body lib model kpla)"
  using assms unfolding loop_body_def Let_def loop_methods_receiver_only_def
  by (intro frames_pbind frames_invoke frames_lift frames_ret frames_if)
     (auto simp: split_def intro!: frames_pbind frames_invoke frames_lift frames_ret frames_if)

lemma for_loop_frames:
  assumes "\<And>k. frames a (body k)"
  shows "frames a (for_loop body ks)"
  unfolding frames_def
proof (intro allI impI)
  fix s :: "'a state"
  assume "a < length (heap s)"
  then show "length (heap s) \<le> length (heap (snd (for_loop body ks s)))
        \<and> (\<forall>b<length (heap s). b \<noteq> a \<longrightarrow> heap (snd (for_loop body ks s)) ! b = heap s ! b)"
  proof (induction ks arbitrary: s)
    case Nil
    then show ?case by simp
  next
    case (Cons k ks)
    obtain r s' where b: "body k s = (r, s')" by (cases "body k s")
    from assms[of k] Cons.prems b have l1: "length (heap s) \<le> length (heap s')"
      and k1: "\<And>b. b < length (heap s) \<Longrightarrow> b \<noteq> a \<Longrightarrow> heap s' ! b = heap s ! b"
      by (auto simp: frames_def)
    show ?case
    proof (cases r)
      case (Inl e)
      with b l1 k1 show ?thesis by simp
    next
      case (Inr fl)
      show ?thesis
      proof (cases fl)
        case Break
        with b Inr l1 k1 show ?thesis by simp
      next
        case Continue
        have a': "a < length (heap s')" using Cons.prems l1 by simp
        from Cons.IH[OF a'] have l2: "length (heap s') \<le> length (heap (snd (for_loop body ks s')))"
          and k2: "\<And>b. b < length (heap s') \<Longrightarrow> b \<noteq> a \<Longrightarrow> heap (snd (for_loop body ks s')) ! b = heap s' ! b"
          by auto
        have "\<And>b. b < length (heap s) \<Longrightarrow> b \<noteq> a \<Longrightarrow> heap (snd (for_loop body ks s')) ! b = heap s ! b"
          using k1 k2 l1 by (metis less_le_trans)
        with b Inr Continue l1 l2 show ?thesis by simp
      qed
    qed
  qed
qed

text \<open>
  Claim C9. The cell copies the fitted single-star model and calls every method of the
  loop on the copy. Provided each of these methods changes no object but its receiver,
  the object \<open>single_star_model\<close> refers to, and every other object that existed
  before the cell, has the same state afterwards, whether the cell returns or raises;
  the model the cell works on is a different object.
\<close>

theorem original_model_unchanged:
  assumes "loop_methods_receiver_only lib"
      and "single_star_model < length h"
  shows "heap (snd (detection_cell lib single_star_model \<lparr>heap = h, trace = tr\<rparr>)) ! single_star_model
           = h ! single_star_model
       \<and> take (length h) (heap (snd (detection_cell lib single_star_model \<lparr>heap = h, trace = tr\<rparr>))) = h
       \<and> fst (detection_cell lib single_star_model \<lparr>heap = h, trace = tr\<rparr>) \<noteq> Inr single_star_model"
proof -
  let ?s1 = "\<lparr>heap = h @ [h ! single_star_model], trace = tr\<rparr>"
  let ?model = "length h"
  let ?run = "detection_loop lib 1 ?model ?s1"
  have fr: "frames ?model (detection_loop lib 1 ?model)"
    unfolding detection_loop_def by (rule for_loop_frames) (rule loop_body_frames[OF assms(1)])
  have m: "?model < length (heap ?s1)" by simp
  from fr have "?model < length (heap ?s1) \<longrightarrow>
        length (heap ?s1) \<le> length (heap (snd ?run))
        \<and> (\<forall>b<length (heap ?s1). b \<noteq> ?model \<longrightarrow> heap (snd ?run) ! b = heap ?s1 ! b)"
    unfolding frames_def by (rule spec)
  with m have l: "length (heap ?s1) \<le> length (heap (snd ?run))"
    and k: "\<And>b. b < length (heap ?s1) \<Longrightarrow> b \<noteq> ?model \<Longrightarrow> heap (snd ?run) ! b = heap ?s1 ! b"
    by blast+
  have cell: "detection_cell lib single_star_model \<lparr>heap = h, trace = tr\<rparr> =
          (case ?run of (Inl e, s') \<Rightarrow> (Inl e, s') | (Inr u, s') \<Rightarrow> (Inr ?model, s'))"
    by (simp add: detection_cell_def pbind_def deepcopy_def ret_def split: prod.splits sum.splits)
  have hp: "heap (snd (detection_cell lib single_star_model \<lparr>heap = h, trace = tr\<rparr>)) = heap (snd ?run)"
    unfolding cell by (simp split: prod.splits sum.splits)
  have keep: "\<And>b. b < length h \<Longrightarrow> heap (snd ?run) ! b = h ! b"
    using k by (simp add: nth_append)
  have c1: "heap (snd ?run) ! single_star_model = h ! single_star_model"
    using keep assms(2) by simp
  have c2: "take (length h) (heap (snd ?run)) = h"
    using keep l by (intro nth_equalityI) simp_all
  have c3: "fst (detection_cell lib single_star_model \<lparr>heap = h, trace = tr\<rparr>) \<noteq> Inr single_star_model"
    unfolding cell using assms(2) by (simp split: prod.splits sum.splits)
  show ?thesis using c1 c2 c3 unfolding hp by simp
qed

lemma stub_receiver_only: "loop_methods_receiver_only (stub f)"
  by (simp add: loop_methods_receiver_only_def receiver_only_def stub_def)

text \<open>The copy gets the new component, the original keeps its state.\<close>

theorem original_model_unchanged_witness:
  "heap (snd (detection_cell (stub (1 / 2000)) 0 \<lparr>heap = [[7]], trace = []\<rparr>)) ! 0 = [7]
   \<and> take 1 (heap (snd (detection_cell (stub (1 / 2000)) 0 \<lparr>heap = [[7]], trace = []\<rparr>))) = [[7]]
   \<and> heap (snd (detection_cell (stub (1 / 2000)) 0 \<lparr>heap = [[7]], trace = []\<rparr>)) = [[7], [7, pi]]"
  using original_model_unchanged[of "stub (1 / 2000)" 0 "[[7]]" "[]"] stub_receiver_only[of "1 / 2000"]
  by (simp add: stub_cell_eval)

subsection \<open>The regressors of the single-star model\<close>

text \<open>
  Claim C10. The single-star cell constructs the model on the epochs in years times
  \<open>year_to_day\<close> and registers, by its \<open>add_lin\<close> calls in this order, the sines as
  \<open>ra\<close>, the cosines as \<open>dec\<close>, the parallax factors, and as \<open>mura\<close> and \<open>mudec\<close> the
  epochs in years times the sines and the cosines: when these calls, the jitter
  parameter, the fit and \<open>show_param\<close> return, the cell ends with the heap they produce.
  Entry by entry \<open>mura\<close> is the epoch in years times \<open>ra\<close> and \<open>mudec\<close> the epoch in
  years times \<open>dec\<close>. Consequently a coefficient of \<open>mura\<close> or \<open>mudec\<close> multiplies the
  epoch in years in the model's prediction, a rate per year, which is \<open>year_to_day\<close>
  times the rate per unit of the model's time axis; and a period \<open>P\<close> of Kepler's
  equation is a span of the model's time axis, \<open>P / year_to_day\<close> years.
\<close>

theorem proper_motion_regressors:
  assumes t: "t = map (\<lambda>x. x * yd) (map relative_time_year df)"
      and ra: "ra = map spsi_obs df"
      and dec: "dec = map cpsi_obs df"
      and plx: "plx = map parallaxFactorAlongScan df"
      and mura: "mura = map2 (*) (map relative_time_year df) (map spsi_obs df)"
      and mudec: "mudec = map2 (*) (map relative_time_year df) (map cpsi_obs df)"
      and new: "AstrometricModel lib t (map centroidPosAl_mas df) (map cpsi_obs df) (map spsi_obs df)
                  (map centroidPosAlError_mas df) (5 / 100) h = (Inr a, h1)"
      and c_ra: "add_lin lib ra ''ra'' a h1 = (Inr (), h2)"
      and c_dec: "add_lin lib dec ''dec'' a h2 = (Inr (), h3)"
      and c_plx: "add_lin lib plx ''parallax'' a h3 = (Inr (), h4)"
      and c_mura: "add_lin lib mura ''mura'' a h4 = (Inr (), h5)"
      and c_mudec: "add_lin lib mudec ''mudec'' a h5 = (Inr (), h6)"
      and c_jit: "fit_param_iadd lib [''cov.jit.sig''] a h6 = (Inr (), h7)"
      and c_fit: "fit lib a h7 = (Inr (), h8)"
      and c_show: "show_param lib a h8 = (Inr (), h9)"
  shows "single_star_cell lib yd df \<lparr>heap = h, trace = []\<rparr> =
           (Inr a, \<lparr>heap = h9, trace =
              [NewAstrometricModel t (map centroidPosAl_mas df) (map cpsi_obs df) (map spsi_obs df)
                 (map centroidPosAlError_mas df) (5 / 100),
               AddLin ra ''ra'', AddLin dec ''dec'', AddLin plx ''parallax'',
               AddLin mura ''mura'', AddLin mudec ''mudec'',
               FitParamIadd [''cov.jit.sig''], Fit, ShowParam]\<rparr>)
       \<and> length t = length df \<and> length ra = length df \<and> length dec = length df
       \<and> length mura = length df \<and> length mudec = length df
       \<and> (\<forall>i<length df.
               t ! i = relative_time_year (df ! i) * yd
             \<and> ra ! i = spsi_obs (df ! i)
             \<and> dec ! i = cpsi_obs (df ! i)
             \<and> mura ! i = relative_time_year (df ! i) * ra ! i
             \<and> mudec ! i = relative_time_year (df ! i) * dec ! i
             \<and> mura ! i * yd = t ! i * ra ! i
             \<and> mudec ! i * yd = t ! i * dec ! i)
       \<and> (\<forall>i<length df.
             linear_prediction [(offset_ra, ra), (offset_dec, dec), (parallax, plx), (pm_ra, mura), (pm_dec, mudec)] i =
               (offset_ra + pm_ra * relative_time_year (df ! i)) * spsi_obs (df ! i)
               + (offset_dec + pm_dec * relative_time_year (df ! i)) * cpsi_obs (df ! i)
               + parallax * parallaxFactorAlongScan (df ! i))
       \<and> (yd \<noteq> 0 \<longrightarrow> (\<forall>i<length df.
             linear_prediction [(offset_ra, ra), (offset_dec, dec), (parallax, plx), (pm_ra, mura), (pm_dec, mudec)] i =
               (offset_ra + pm_ra / yd * t ! i) * spsi_obs (df ! i)
               + (offset_dec + pm_dec / yd * t ! i) * cpsi_obs (df ! i)
               + parallax * parallaxFactorAlongScan (df ! i)))
       \<and> (yd \<noteq> 0 \<longrightarrow> P \<noteq> 0 \<longrightarrow> (\<forall>i<length df.
             t ! i + P = (relative_time_year (df ! i) + P / yd) * yd
             \<and> mean_anomaly P T0 (t ! i + P) = mean_anomaly P T0 (t ! i) + 2 * pi))"
proof -
  have cell: "single_star_cell lib yd df \<lparr>heap = h, trace = []\<rparr> =
           (Inr a, \<lparr>heap = h9, trace =
              [NewAstrometricModel t (map centroidPosAl_mas df) (map cpsi_obs df) (map spsi_obs df)
                 (map centroidPosAlError_mas df) (5 / 100),
               AddLin ra ''ra'', AddLin dec ''dec'', AddLin plx ''parallax'',
               AddLin mura ''mura'', AddLin mudec ''mudec'',
               FitParamIadd [''cov.jit.sig''], Fit, ShowParam]\<rparr>)"
    using new c_ra c_dec c_plx c_mura c_mudec c_jit c_fit c_show
    unfolding t ra dec plx mura mudec single_star_cell_def Let_def
    by (simp add: pbind_def invoke_def construct_def ret_def)
  have len: "length t = length df \<and> length ra = length df \<and> length dec = length df
       \<and> length mura = length df \<and> length mudec = length df"
    by (simp add: t ra dec mura mudec)
  have el: "\<forall>i<length df.
               t ! i = relative_time_year (df ! i) * yd
             \<and> ra ! i = spsi_obs (df ! i)
             \<and> dec ! i = cpsi_obs (df ! i)
             \<and> mura ! i = relative_time_year (df ! i) * ra ! i
             \<and> mudec ! i = relative_time_year (df ! i) * dec ! i
             \<and> mura ! i * yd = t ! i * ra ! i
             \<and> mudec ! i * yd = t ! i * dec ! i"
    by (simp add: t ra dec mura mudec)
  have pl: "\<forall>i<length df. plx ! i = parallaxFactorAlongScan (df ! i)" by (simp add: plx)
  have lp: "\<forall>i<length df.
             linear_prediction [(offset_ra, ra), (offset_dec, dec), (parallax, plx), (pm_ra, mura), (pm_dec, mudec)] i =
               (offset_ra + pm_ra * relative_time_year (df ! i)) * spsi_obs (df ! i)
               + (offset_dec + pm_dec * relative_time_year (df ! i)) * cpsi_obs (df ! i)
               + parallax * parallaxFactorAlongScan (df ! i)"
    using el pl by (simp add: linear_prediction_def algebra_simps)
  have lpd: "yd \<noteq> 0 \<longrightarrow> (\<forall>i<length df.
             linear_prediction [(offset_ra, ra), (offset_dec, dec), (parallax, plx), (pm_ra, mura), (pm_dec, mudec)] i =
               (offset_ra + pm_ra / yd * t ! i) * spsi_obs (df ! i)
               + (offset_dec + pm_dec / yd * t ! i) * cpsi_obs (df ! i)
               + parallax * parallaxFactorAlongScan (df ! i))"
  proof (intro impI allI)
    fix i assume y: "yd \<noteq> 0" and i: "i < length df"
    from el i have ti: "t ! i = relative_time_year (df ! i) * yd" by blast
    have "pm_ra / yd * t ! i = pm_ra * relative_time_year (df ! i)"
         "pm_dec / yd * t ! i = pm_dec * relative_time_year (df ! i)"
      using y by (simp_all add: ti)
    with lp i show "linear_prediction [(offset_ra, ra), (offset_dec, dec), (parallax, plx), (pm_ra, mura), (pm_dec, mudec)] i =
               (offset_ra + pm_ra / yd * t ! i) * spsi_obs (df ! i)
               + (offset_dec + pm_dec / yd * t ! i) * cpsi_obs (df ! i)
               + parallax * parallaxFactorAlongScan (df ! i)" by simp
  qed
  have ma: "yd \<noteq> 0 \<longrightarrow> P \<noteq> 0 \<longrightarrow> (\<forall>i<length df.
             t ! i + P = (relative_time_year (df ! i) + P / yd) * yd
             \<and> mean_anomaly P T0 (t ! i + P) = mean_anomaly P T0 (t ! i) + 2 * pi)"
  proof (intro impI allI)
    fix i assume y: "yd \<noteq> 0" and p: "P \<noteq> 0" and i: "i < length df"
    from el i have ti: "t ! i = relative_time_year (df ! i) * yd" by blast
    have a: "t ! i + P = (relative_time_year (df ! i) + P / yd) * yd"
      using y by (simp add: ti algebra_simps)
    have b: "mean_anomaly P T0 (t ! i + P) = mean_anomaly P T0 (t ! i) + 2 * pi"
    proof -
      have d: "c * (x + P - T0) = c * (x - T0) + c * P" for c x :: real
        by (simp add: algebra_simps)
      have "2 * pi / P * P = 2 * pi" using p by simp
      with d[of "2 * pi / P" "t ! i"] show ?thesis by (simp only: mean_anomaly_def)
    qed
    from a b show "t ! i + P = (relative_time_year (df ! i) + P / yd) * yd
             \<and> mean_anomaly P T0 (t ! i + P) = mean_anomaly P T0 (t ! i) + 2 * pi" by blast
  qed
  from cell len el lp lpd ma show ?thesis by blast
qed

text \<open>Two observations, with 365.25 days to the year, and the second library: the model
  object holds the regressors the cell registered.\<close>

theorem proper_motion_regressors_witness:
  "single_star_cell (recording 0) (1461 / 4) two_observations \<lparr>heap = [], trace = []\<rparr> =
     (Inr 0, \<lparr>heap = [\<lparr>toy_t = [- (1461 / 4), 1461 / 2],
                          toy_lin = [(''ra'', [4 / 5, 1]), (''dec'', [3 / 5, 0]), (''parallax'', [1 / 2, - (1 / 4)]),
                                     (''mura'', [- (4 / 5), 2]), (''mudec'', [- (3 / 5), 0])],
                          toy_kep = []\<rparr>],
              trace =
        [NewAstrometricModel [- (1461 / 4), 1461 / 2] [3, - 1] [3 / 5, 0] [4 / 5, 1] [1 / 10, 1 / 10] (5 / 100),
         AddLin [4 / 5, 1] ''ra'', AddLin [3 / 5, 0] ''dec'', AddLin [1 / 2, - (1 / 4)] ''parallax'',
         AddLin [- (4 / 5), 2] ''mura'', AddLin [- (3 / 5), 0] ''mudec'',
         FitParamIadd [''cov.jit.sig''], Fit, ShowParam]\<rparr>)
   \<and> linear_prediction [(10, [4 / 5, 1]), (20, [3 / 5, 0]), (7, [1 / 2, - (1 / 4)]),
                         (3, [- (4 / 5), 2]), (5, [- (3 / 5), 0])] 1
       = (10 + 3 * 2) * 1 + (20 + 5 * 2) * 0 + 7 * (- (1 / 4))
   \<and> mean_anomaly 500 0 (1461 / 2 + 500) = mean_anomaly 500 0 (1461 / 2) + 2 * pi"
proof -
  let ?lib = "recording 0 :: toy_model kepmodel"
  let ?t = "[- (1461 / 4), 1461 / 2] :: real list"
  let ?m0 = "\<lparr>toy_t = ?t, toy_lin = [], toy_kep = []\<rparr>"
  let ?l1 = "[(''ra'', [4 / 5, 1 :: real])]"
  let ?l2 = "?l1 @ [(''dec'', [3 / 5, 0])]"
  let ?l3 = "?l2 @ [(''parallax'', [1 / 2, - (1 / 4)])]"
  let ?l4 = "?l3 @ [(''mura'', [- (4 / 5), 2])]"
  let ?l5 = "?l4 @ [(''mudec'', [- (3 / 5), 0])]"
  have d: "?t = map (\<lambda>x. x * (1461 / 4)) (map relative_time_year two_observations)"
    "[4 / 5, 1] = map spsi_obs two_observations"
    "[3 / 5, 0] = map cpsi_obs two_observations"
    "[1 / 2, - (1 / 4)] = map parallaxFactorAlongScan two_observations"
    "[- (4 / 5), 2] = map2 (*) (map relative_time_year two_observations) (map spsi_obs two_observations)"
    "[- (3 / 5), 0] = map2 (*) (map relative_time_year two_observations) (map cpsi_obs two_observations)"
    by (simp_all add: two_observations_def)
  have c: "AstrometricModel ?lib ?t (map centroidPosAl_mas two_observations) (map cpsi_obs two_observations)
             (map spsi_obs two_observations) (map centroidPosAlError_mas two_observations) (5 / 100) []
           = (Inr 0, [?m0])"
    "add_lin ?lib [4 / 5, 1] ''ra'' 0 [?m0] = (Inr (), [?m0\<lparr>toy_lin := ?l1\<rparr>])"
    "add_lin ?lib [3 / 5, 0] ''dec'' 0 [?m0\<lparr>toy_lin := ?l1\<rparr>] = (Inr (), [?m0\<lparr>toy_lin := ?l2\<rparr>])"
    "add_lin ?lib [1 / 2, - (1 / 4)] ''parallax'' 0 [?m0\<lparr>toy_lin := ?l2\<rparr>] = (Inr (), [?m0\<lparr>toy_lin := ?l3\<rparr>])"
    "add_lin ?lib [- (4 / 5), 2] ''mura'' 0 [?m0\<lparr>toy_lin := ?l3\<rparr>] = (Inr (), [?m0\<lparr>toy_lin := ?l4\<rparr>])"
    "add_lin ?lib [- (3 / 5), 0] ''mudec'' 0 [?m0\<lparr>toy_lin := ?l4\<rparr>] = (Inr (), [?m0\<lparr>toy_lin := ?l5\<rparr>])"
    "fit_param_iadd ?lib [''cov.jit.sig''] 0 [?m0\<lparr>toy_lin := ?l5\<rparr>] = (Inr (), [?m0\<lparr>toy_lin := ?l5\<rparr>])"
    "fit ?lib 0 [?m0\<lparr>toy_lin := ?l5\<rparr>] = (Inr (), [?m0\<lparr>toy_lin := ?l5\<rparr>])"
    "show_param ?lib 0 [?m0\<lparr>toy_lin := ?l5\<rparr>] = (Inr (), [?m0\<lparr>toy_lin := ?l5\<rparr>])"
    by (simp_all add: recording_def)
  note th = proper_motion_regressors[OF d c, where offset_ra = 10 and offset_dec = 20 and parallax = 7
      and pm_ra = 3 and pm_dec = 5 and P = 500 and ?T0.0 = 0]
  from th have cell: "single_star_cell ?lib (1461 / 4) two_observations \<lparr>heap = [], trace = []\<rparr> =
           (Inr 0, \<lparr>heap = [?m0\<lparr>toy_lin := ?l5\<rparr>], trace =
              [NewAstrometricModel ?t (map centroidPosAl_mas two_observations) (map cpsi_obs two_observations)
                 (map spsi_obs two_observations) (map centroidPosAlError_mas two_observations) (5 / 100),
               AddLin [4 / 5, 1] ''ra'', AddLin [3 / 5, 0] ''dec'', AddLin [1 / 2, - (1 / 4)] ''parallax'',
               AddLin [- (4 / 5), 2] ''mura'', AddLin [- (3 / 5), 0] ''mudec'',
               FitParamIadd [''cov.jit.sig''], Fit, ShowParam]\<rparr>)"
    by blast
  have i: "(1::nat) < length two_observations" by (simp add: two_observations_def)
  from th i have lp: "linear_prediction [(10, [4 / 5, 1]), (20, [3 / 5, 0]), (7, [1 / 2, - (1 / 4)]),
                         (3, [- (4 / 5), 2]), (5, [- (3 / 5), 0])] 1 =
               (10 + 3 * relative_time_year (two_observations ! 1)) * spsi_obs (two_observations ! 1)
               + (20 + 5 * relative_time_year (two_observations ! 1)) * cpsi_obs (two_observations ! 1)
               + 7 * parallaxFactorAlongScan (two_observations ! 1)"
    by blast
  have nz: "(1461 / 4 :: real) \<noteq> 0" "(500 :: real) \<noteq> 0" by simp_all
  from th i nz have ma: "mean_anomaly 500 0 (?t ! 1 + 500) = mean_anomaly 500 0 (?t ! 1) + 2 * pi"
    by blast
  from cell lp ma show ?thesis by (simp add: two_observations_def)
qed

end
